theory Spec2Isabelle
  imports Complex_Main "HOL-Library.Multiset"
begin

section \<open>Data model\<close>

text \<open>
  The Python sources work on NumPy arrays of 64-bit floats.  The embedding uses
  \<^typ>\<open>real\<close> for the entries of the input arrays: rounding and overflow to infinity are
  outside the model.  The mean of an empty sample is NaN in NumPy; values that can hold
  it have the type \<open>float64\<close> below.  The normalised histogram of an empty sample is
  NaN as well, where the model has 0, and the theorems on histograms exclude that case
  in a hypothesis.  Integer index arrays are 64-bit and wrap around, written out with
  \<open>wrap_int64\<close>.  A one-dimensional array is a list, a
  two-dimensional array of shape \<open>(n, d)\<close> is the record \<open>array2\<close> (the column count is
  kept because an array of shape \<open>(0, d)\<close> has no row to read it from).  Console output
  and plotting are not modelled; an exception raised by the Python code is a value
  \<open>Inl e\<close> of the result type.
\<close>

datatype py_error =
    AssertionError
  | IndexError
  | ValueError
  | NameError
  | ArangeLengthError
  | MemoryError
  | OverflowError

type_synonym 'a result = "py_error + 'a"

definition bind_result :: "'a result \<Rightarrow> ('a \<Rightarrow> 'b result) \<Rightarrow> 'b result" where
  "bind_result r f = (case r of Inl e \<Rightarrow> Inl e | Inr v \<Rightarrow> f v)"

record array2 =
  ncols :: nat
  rows :: "real list list"

subsection \<open>NumPy primitives used by the sources\<close>

text \<open>
  \<open>np.argsort(xs)\<close>: the indices that sort \<open>xs\<close> in ascending order.  Equal values keep
  their input order here; NumPy's default sort promises no order among them, and no
  theorem below depends on it.
\<close>

definition np_argsort :: "real list \<Rightarrow> nat list" where
  "np_argsort xs = sort_key (\<lambda>i. xs ! i) [0..<length xs]"

text \<open>\<open>xs[idx]\<close> for an index array \<open>idx\<close> of in-range indices.\<close>

definition take_idx :: "'a list \<Rightarrow> nat list \<Rightarrow> 'a list" where
  "take_idx xs idx = map (\<lambda>i. xs ! i) idx"

text \<open>\<open>np.dot\<close> of two one-dimensional arrays: shapes that do not match raise.\<close>

definition np_dot :: "real list \<Rightarrow> real list \<Rightarrow> real result" where
  "np_dot xs ys =
     (if length xs \<noteq> length ys then Inl ValueError
      else Inr (sum_list (map2 (*) xs ys)))"

text \<open>\<open>m[:, j]\<close>: column \<open>j\<close> of a two-dimensional array.\<close>

definition column :: "array2 \<Rightarrow> nat \<Rightarrow> real list result" where
  "column m j =
     (if j < ncols m then Inr (map (\<lambda>r. r ! j) (rows m)) else Inl IndexError)"

text \<open>\<open>np.concatenate([g, a], 0)\<close>: the column counts have to agree.\<close>

definition concatenate0 :: "array2 \<Rightarrow> array2 \<Rightarrow> array2 result" where
  "concatenate0 g a =
     (if ncols g \<noteq> ncols a then Inl ValueError
      else Inr \<lparr>ncols = ncols g, rows = rows g @ rows a\<rparr>)"

text \<open>The value a signed 64-bit integer takes when a computation leaves its range.\<close>

definition wrap_int64 :: "int \<Rightarrow> int" where
  "wrap_int64 x = (x + 2 ^ 63) mod 2 ^ 64 - 2 ^ 63"

text \<open>
  \<open>np.arange(n) + start_frame\<close>: \<open>np.arange(n)\<close> is an array of 64-bit integers (the
  default integer of NumPy on 64-bit Linux and macOS) and \<open>start_frame\<close> is a Python
  integer.  The sum is again a 64-bit array and wraps around silently.  A Python
  integer that does not fit into 64 bits cannot be converted: NumPy 2 raises
  OverflowError, which is what the model does (NumPy 1 changes the type of the result
  instead).
\<close>

definition arange_plus :: "nat \<Rightarrow> int \<Rightarrow> int list result" where
  "arange_plus n start_frame =
     (if start_frame < - (2 ^ 63) \<or> 2 ^ 63 \<le> start_frame then Inl OverflowError
      else Inr (map (\<lambda>j. wrap_int64 (int j + start_frame)) [0..<n]))"

text \<open>
  \<open>np.concatenate([np.arange(n_g)+start_frame, np.arange(n_a)+start_frame])\<close>, the index
  array of two ensembles of \<open>n_g\<close> and \<open>n_a\<close> frames.
\<close>

definition arange_plus2 :: "nat \<Rightarrow> nat \<Rightarrow> int \<Rightarrow> int list result" where
  "arange_plus2 n_g n_a start_frame =
     bind_result (arange_plus n_g start_frame) (\<lambda>oidx_g.
     bind_result (arange_plus n_a start_frame) (\<lambda>oidx_a.
     Inr (oidx_g @ oidx_a)))"

section \<open>Feature difference analysis (analysis.py)\<close>

text \<open>
  The two feature objects come from PyEMMA.  The functions read \<open>describe()\<close> of the
  whole object and \<open>describe()\<close> of each entry of \<open>active_features\<close>; the record holds
  both.  The data arrays are two-dimensional with one row per feature, so \<open>shape[0]\<close>
  and \<open>len\<close> are the number of rows and \<open>all_data[i]\<close> is the sample of feature \<open>i\<close>.
\<close>

record featurizer =
  describe :: "string list"
  active_features :: "string list list"

text \<open>
  A floating-point value that may be NaN, with the three operations the sources apply
  to means: any operation on NaN gives NaN.
\<close>

datatype float64 = Finite real | NaN

fun float_add :: "float64 \<Rightarrow> float64 \<Rightarrow> float64" where
  "float_add (Finite x) (Finite y) = Finite (x + y)"
| "float_add x y = NaN"

fun float_sub :: "float64 \<Rightarrow> float64 \<Rightarrow> float64" where
  "float_sub (Finite x) (Finite y) = Finite (x - y)"
| "float_sub x y = NaN"

fun float_scale :: "real \<Rightarrow> float64 \<Rightarrow> float64" where
  "float_scale c (Finite x) = Finite (c * x)"
| "float_scale c NaN = NaN"

text \<open>
  \<open>np.mean\<close> of a one-dimensional array: the sum divided by the number of entries, and
  NaN (with a warning, not an exception) for an empty array.
\<close>

definition np_mean :: "real list \<Rightarrow> float64" where
  "np_mean xs = (if xs = [] then NaN else Finite (sum_list xs / real (length xs)))"

text \<open>\<open>arr[i] = v\<close> for a NumPy array: an index past the end raises.\<close>

definition set_item :: "'a list \<Rightarrow> nat \<Rightarrow> 'a \<Rightarrow> 'a list result" where
  "set_item arr i v = (if i < length arr then Inr (arr[i := v]) else Inl IndexError)"

text \<open>A \<open>for\<close> loop over indices that threads its state and stops at the first exception.\<close>

fun fold_result :: "('a \<Rightarrow> 's \<Rightarrow> 's result) \<Rightarrow> 'a list \<Rightarrow> 's \<Rightarrow> 's result" where
  "fold_result f [] st = Inr st"
| "fold_result f (x # xs) st = bind_result (f x st) (fold_result f xs)"

subsection \<open>\<open>mean_difference_analysis\<close>\<close>

text \<open>
  \<^verbatim>\<open>
  data_a = all_data_a[i]
  data_g = all_data_g[i]
  mean_a = np.mean(data_a)
  mean_g = np.mean(data_g)
  diff_ag = mean_a-mean_g
  mean_ag = 0.5*(mean_a+mean_g)
  data_avg[i]  = mean_ag
  data_diff[i] = diff_ag
  \<close>
  The state of the loop is \<open>(data_avg, data_diff)\<close>.  The print under \<open>verbose\<close> reads
  entries that have just been written and cannot raise.
\<close>

definition mean_difference_step ::
  "real list list \<Rightarrow> real list list \<Rightarrow> nat \<Rightarrow> float64 list \<times> float64 list
     \<Rightarrow> (float64 list \<times> float64 list) result" where
  "mean_difference_step all_data_a all_data_g i st =
     (case st of (data_avg, data_diff) \<Rightarrow>
        let data_a = all_data_a ! i;
            data_g = all_data_g ! i;
            mean_a = np_mean data_a;
            mean_g = np_mean data_g;
            diff_ag = float_sub mean_a mean_g;
            mean_ag = float_scale 0.5 (float_add mean_a mean_g)
        in bind_result (set_item data_avg i mean_ag) (\<lambda>data_avg'.
           bind_result (set_item data_diff i diff_ag) (\<lambda>data_diff'.
           Inr (data_avg', data_diff'))))"

text \<open>
  \<^verbatim>\<open>
  assert features_a.describe() == features_g.describe()
  assert all_data_a.shape[0] == all_data_g.shape[0]
  data_names = features_a.active_features[0].describe()
  data_diff = np.zeros(len(data_names))
  data_avg  = np.zeros(len(data_names))
  for i in range(len(all_data_a)): ...
  return data_names, data_avg, data_diff
  \<close>
\<close>

definition mean_difference_analysis ::
  "featurizer \<Rightarrow> featurizer \<Rightarrow> real list list \<Rightarrow> real list list \<Rightarrow> bool
     \<Rightarrow> (string list \<times> float64 list \<times> float64 list) result" where
  "mean_difference_analysis features_a features_g all_data_a all_data_g verbose =
     (if describe features_a \<noteq> describe features_g then Inl AssertionError
      else if length all_data_a \<noteq> length all_data_g then Inl AssertionError
      else case active_features features_a of
             [] \<Rightarrow> Inl IndexError
           | data_names # _ \<Rightarrow>
               bind_result
                 (fold_result (mean_difference_step all_data_a all_data_g)
                    [0..<length all_data_a]
                    (replicate (length data_names) (Finite 0),
                     replicate (length data_names) (Finite 0)))
                 (\<lambda>(data_avg, data_diff). Inr (data_names, data_avg, data_diff)))"

subsection \<open>\<open>kolmogorov_smirnov_analysis\<close>\<close>

text \<open>
  \<open>scipy.stats.ks_2samp\<close> is the parameter \<open>ks_2samp\<close>; it returns the statistic and the
  p-value, or raises.
  \<^verbatim>\<open>
  ks = sp.stats.ks_2samp(data_a,data_g)
  data_kss[i] = ks.statistic
  data_ksp[i] = ks.pvalue
  data_both = np.concatenate((data_a,data_g))
  data_avg[i] = np.mean(data_both)
  \<close>
  The state of the loop is \<open>(data_avg, data_kss, data_ksp)\<close>.
\<close>

definition kolmogorov_smirnov_step ::
  "(real list \<Rightarrow> real list \<Rightarrow> (real \<times> real) result) \<Rightarrow> real list list \<Rightarrow> real list list
     \<Rightarrow> nat \<Rightarrow> float64 list \<times> real list \<times> real list
     \<Rightarrow> (float64 list \<times> real list \<times> real list) result" where
  "kolmogorov_smirnov_step ks_2samp all_data_a all_data_g i st =
     (case st of (data_avg, data_kss, data_ksp) \<Rightarrow>
        let data_a = all_data_a ! i;
            data_g = all_data_g ! i
        in bind_result (ks_2samp data_a data_g) (\<lambda>(statistic, pvalue).
           bind_result (set_item data_kss i statistic) (\<lambda>data_kss'.
           bind_result (set_item data_ksp i pvalue) (\<lambda>data_ksp'.
           let data_both = data_a @ data_g
           in bind_result (set_item data_avg i (np_mean data_both)) (\<lambda>data_avg'.
              Inr (data_avg', data_kss', data_ksp'))))))"

definition kolmogorov_smirnov_analysis ::
  "(real list \<Rightarrow> real list \<Rightarrow> (real \<times> real) result) \<Rightarrow> featurizer \<Rightarrow> featurizer
     \<Rightarrow> real list list \<Rightarrow> real list list \<Rightarrow> real \<Rightarrow> bool
     \<Rightarrow> (string list \<times> real list \<times> real list) result" where
  "kolmogorov_smirnov_analysis ks_2samp features_a features_g all_data_a all_data_g
       bin_width verbose =
     (if describe features_a \<noteq> describe features_g then Inl AssertionError
      else if length all_data_a \<noteq> length all_data_g then Inl AssertionError
      else case active_features features_a of
             [] \<Rightarrow> Inl IndexError
           | data_names # _ \<Rightarrow>
               bind_result
                 (fold_result (kolmogorov_smirnov_step ks_2samp all_data_a all_data_g)
                    [0..<length all_data_a]
                    (replicate (length data_names) (Finite 0),
                     replicate (length data_names) 0, replicate (length data_names) 0))
                 (\<lambda>(data_avg, data_kss, data_ksp). Inr (data_names, data_kss, data_ksp)))"

subsection \<open>Histograms\<close>

text \<open>
  \<open>np.linspace(first, last, n + 1)\<close>: the \<open>n + 1\<close> edges of \<open>n\<close> bins of equal width.
\<close>

definition linspace :: "real \<Rightarrow> real \<Rightarrow> nat \<Rightarrow> real list" where
  "linspace first_edge last_edge n =
     map (\<lambda>k. first_edge + real k * ((last_edge - first_edge) / real n)) [0..<Suc n]"

text \<open>
  The edges \<open>np.histogram(xs)\<close> chooses with its default of 10 bins: they span the
  minimum and the maximum of the sample, widened by one half on each side when the
  two coincide.
\<close>

definition histogram_bin_edges :: "real list \<Rightarrow> real list" where
  "histogram_bin_edges xs =
     (let first_edge = (if xs = [] then 0 else Min (set xs));
          last_edge = (if xs = [] then 1 else Max (set xs))
      in if first_edge = last_edge then linspace (first_edge - 0.5) (last_edge + 0.5) 10
         else linspace first_edge last_edge 10)"

text \<open>
  The counts for given edges: bin \<open>k\<close> is half-open, \<open>edges[k] \<le> x < edges[k+1]\<close>, except
  the last one, which includes its right edge.  Values outside all bins are not counted.
\<close>

definition in_bin :: "real list \<Rightarrow> nat \<Rightarrow> real \<Rightarrow> bool" where
  "in_bin edges k x \<longleftrightarrow>
     edges ! k \<le> x \<and> (x < edges ! (k + 1) \<or> (k + 2 = length edges \<and> x = edges ! (k + 1)))"

definition bin_counts :: "real list \<Rightarrow> real list \<Rightarrow> nat list" where
  "bin_counts xs edges =
     map (\<lambda>k. length (filter (in_bin edges k) xs)) [0..<length edges - 1]"

text \<open>\<open>np.diff(edges)\<close>: the bin widths.\<close>

definition np_diff :: "real list \<Rightarrow> real list" where
  "np_diff edges = map2 (\<lambda>lo hi. hi - lo) edges (tl edges)"

text \<open>
  \<open>np.histogram(xs, density=True, bins=edges)\<close> returns \<open>(n/db/n.sum(), edges)\<close>, where
  \<open>n\<close> are the counts and \<open>db\<close> the widths.  The edges built by \<open>histogram_bin_edges\<close>
  increase strictly, so the check NumPy makes on explicit edges passes.
\<close>

definition np_histogram_density :: "real list \<Rightarrow> real list \<Rightarrow> real list \<times> real list" where
  "np_histogram_density xs edges =
     (let n = bin_counts xs edges;
          db = np_diff edges
      in (map2 (\<lambda>c w. real c / w / real (sum_list n)) n db, edges))"

text \<open>
  \<open>np.arange(start, stop, step)\<close> allocates \<open>ceil((stop - start) / step)\<close> entries of
  eight bytes.  A zero step makes the length computation fail (ValueError or
  OverflowError depending on the NumPy version).  A length whose byte size does not fit
  into a signed 64-bit integer is refused with ValueError ("Maximum allowed size
  exceeded").  A smaller length that the machine cannot allocate gives MemoryError;
  \<open>max_elems\<close> is the number of entries the machine can allocate, a parameter of the
  model.
\<close>

definition np_arange :: "nat \<Rightarrow> real \<Rightarrow> real \<Rightarrow> real \<Rightarrow> real list result" where
  "np_arange max_elems start stop step =
     (if step = 0 then Inl ArangeLengthError
      else
        let n = \<lceil>(stop - start) / step\<rceil>
        in if 8 * n > 2 ^ 63 - 1 then Inl ValueError
           else if n > int max_elems then Inl MemoryError
           else Inr (map (\<lambda>k. start + real k * step) [0..<nat n]))"

subsection \<open>\<open>relative_entropy_analysis\<close>\<close>

text \<open>
  The two distributions of one feature:
  \<^verbatim>\<open>
  histo_both = np.histogram(data_both, density = True)
  histo_a = np.histogram(data_a, density = True, bins = histo_both[1])
  distr_a = histo_a[0] / np.sum(histo_a[0])
  histo_g = np.histogram(data_g, density = True, bins = histo_both[1])
  distr_g = histo_g[0] / np.sum(histo_g[0])
  \<close>
  The value is \<open>(histo_a, histo_g, distr_a, distr_g)\<close>.
\<close>

definition feature_distributions ::
  "real list \<Rightarrow> real list
     \<Rightarrow> (real list \<times> real list) \<times> (real list \<times> real list) \<times> real list \<times> real list" where
  "feature_distributions data_a data_g =
     (let data_both = data_a @ data_g;
          histo_both = np_histogram_density data_both (histogram_bin_edges data_both);
          histo_a = np_histogram_density data_a (snd histo_both);
          distr_a = map (\<lambda>h. h / sum_list (fst histo_a)) (fst histo_a);
          histo_g = np_histogram_density data_g (snd histo_both);
          distr_g = map (\<lambda>h. h / sum_list (fst histo_g)) (fst histo_g)
      in (histo_a, histo_g, distr_a, distr_g))"

text \<open>
  One pass of the loop.  \<open>kl_div_sum p q\<close> stands for \<open>np.sum(sp.special.kl_div(p,q))\<close>
  and \<open>jensenshannon p q\<close> for \<open>scipy.spatial.distance.jensenshannon(p, q, base=2.0)\<close>;
  both are parameters, as is \<open>max_elems\<close> (see \<open>np_arange\<close>).  The state is
  \<open>(data_jsdist, data_kld_ag, data_kld_ga, data_avg)\<close>.
  \<^verbatim>\<open>
  data_both = np.concatenate((data_a,data_g))
  data_avg[i] = np.mean(data_both)
  bins_min = np.min( data_both )
  bins_max = np.max( data_both )
  bins = np.arange(bins_min,bins_max,bin_width)
  ...
  data_kld_ag[i] = np.sum( sp.special.kl_div(distr_a,distr_g) )
  data_kld_ga[i] = np.sum( sp.special.kl_div(distr_g,distr_a) )
  data_jsdist[i] = scipy.spatial.distance.jensenshannon(distr_a, distr_g, base=2.0)
  if verbose:
      print(i,'/',len(all_data_a),':', data_names[i]," %1.2f"%data_avg[i],
            " %1.2f %1.2f %1.2f"%(js_dist,rel_ent_ag,rel_ent_ga))
  \<close>
  \<open>np.min\<close> of an empty array raises ValueError.  The names \<open>js_dist\<close>, \<open>rel_ent_ag\<close> and
  \<open>rel_ent_ga\<close> are bound nowhere in the module, so evaluating the arguments of the
  print raises NameError.
\<close>

definition relative_entropy_step ::
  "nat \<Rightarrow> (real list \<Rightarrow> real list \<Rightarrow> real) \<Rightarrow> (real list \<Rightarrow> real list \<Rightarrow> real)
     \<Rightarrow> real list list \<Rightarrow> real list list \<Rightarrow> real \<Rightarrow> bool \<Rightarrow> nat
     \<Rightarrow> real list \<times> real list \<times> real list \<times> float64 list
     \<Rightarrow> (real list \<times> real list \<times> real list \<times> float64 list) result" where
  "relative_entropy_step max_elems kl_div_sum jensenshannon all_data_a all_data_g bin_width
       verbose i st =
     (case st of (data_jsdist, data_kld_ag, data_kld_ga, data_avg) \<Rightarrow>
        let data_a = all_data_a ! i;
            data_g = all_data_g ! i;
            data_both = data_a @ data_g
        in bind_result (set_item data_avg i (np_mean data_both)) (\<lambda>data_avg'.
           if data_both = [] then Inl ValueError
           else
             let bins_min = Min (set data_both);
                 bins_max = Max (set data_both)
             in bind_result (np_arange max_elems bins_min bins_max bin_width) (\<lambda>bins.
                case feature_distributions data_a data_g of
                  (histo_a, histo_g, distr_a, distr_g) \<Rightarrow>
                bind_result (set_item data_kld_ag i (kl_div_sum distr_a distr_g)) (\<lambda>data_kld_ag'.
                bind_result (set_item data_kld_ga i (kl_div_sum distr_g distr_a)) (\<lambda>data_kld_ga'.
                bind_result (set_item data_jsdist i (jensenshannon distr_a distr_g)) (\<lambda>data_jsdist'.
                if verbose then Inl NameError
                else Inr (data_jsdist', data_kld_ag', data_kld_ga', data_avg')))))))"

text \<open>
  \<^verbatim>\<open>
  assert features_a.describe() == features_g.describe()
  assert all_data_a.shape[0] == all_data_g.shape[0]
  data_names = features_a.active_features[0].describe()
  data_jsdist = np.zeros(len(data_names))
  ...
  for i in range(len(all_data_a)): ...
  return data_names, data_jsdist, data_kld_ag, data_kld_ga
  \<close>
\<close>

definition relative_entropy_analysis ::
  "nat \<Rightarrow> (real list \<Rightarrow> real list \<Rightarrow> real) \<Rightarrow> (real list \<Rightarrow> real list \<Rightarrow> real)
     \<Rightarrow> featurizer \<Rightarrow> featurizer \<Rightarrow> real list list \<Rightarrow> real list list \<Rightarrow> real \<Rightarrow> bool
     \<Rightarrow> (string list \<times> real list \<times> real list \<times> real list) result" where
  "relative_entropy_analysis max_elems kl_div_sum jensenshannon features_a features_g
       all_data_a all_data_g bin_width verbose =
     (if describe features_a \<noteq> describe features_g then Inl AssertionError
      else if length all_data_a \<noteq> length all_data_g then Inl AssertionError
      else case active_features features_a of
             [] \<Rightarrow> Inl IndexError
           | data_names # _ \<Rightarrow>
               bind_result
                 (fold_result
                    (relative_entropy_step max_elems kl_div_sum jensenshannon all_data_a
                       all_data_g bin_width verbose)
                    [0..<length all_data_a]
                    (replicate (length data_names) 0, replicate (length data_names) 0,
                     replicate (length data_names) 0, replicate (length data_names) (Finite 0)))
                 (\<lambda>(data_jsdist, data_kld_ag, data_kld_ga, data_avg).
                    Inr (data_names, data_jsdist, data_kld_ag, data_kld_ga)))"

section \<open>Feature ranking: \<open>sort_features\<close> (analysis.py)\<close>

text \<open>
  \<^verbatim>\<open>
  sort_id = np.argsort(sortby)[::-1]
  for i in sort_id:
      sorted_names.append(np.array(names)[i])
      sorted_values.append(sortby[i])
  sort = np.array([sn,sv]).T
  \<close>
  The loop reads \<open>names[i]\<close> for every index of \<open>sortby\<close>, so a shorter \<open>names\<close> raises
  IndexError at the first index that is out of range.  The result is the list of
  \<open>(name, value)\<close> rows of the transposed array.  NumPy stores the entries of that
  mixed array as strings; the model keeps the value of a row as the number it prints.
\<close>

fun sort_features_loop ::
  "string list \<Rightarrow> real list \<Rightarrow> nat list \<Rightarrow> (string \<times> real) list result" where
  "sort_features_loop names sortby [] = Inr []"
| "sort_features_loop names sortby (i # sort_id) =
     (if i < length names
      then bind_result (sort_features_loop names sortby sort_id)
             (\<lambda>rest. Inr ((names ! i, sortby ! i) # rest))
      else Inl IndexError)"

definition sort_features :: "string list \<Rightarrow> real list \<Rightarrow> (string \<times> real) list result" where
  "sort_features names sortby =
     sort_features_loop names sortby (rev (np_argsort sortby))"

section \<open>Projection on principal components (pensa/pca.py)\<close>

text \<open>
  The PCA object comes from PyEMMA; the sources read only its \<open>eigenvectors\<close> matrix
  (features by components).
\<close>

record pca =
  eigenvectors :: array2

text \<open>
  \<^verbatim>\<open>
  projection = np.zeros(data.shape[0])
  for ti in range(data.shape[0]):
      projection[ti] = np.dot(data[ti],pca.eigenvectors[:,ev_idx])
  \<close>
  The callers in this file always pass a PCA object and a non-negative index.
\<close>

fun project_rows :: "real list list \<Rightarrow> array2 \<Rightarrow> nat \<Rightarrow> real list result" where
  "project_rows [] ev ev_idx = Inr []"
| "project_rows (r # rs) ev ev_idx =
     bind_result (column ev ev_idx) (\<lambda>c.
     bind_result (np_dot r c) (\<lambda>p.
     bind_result (project_rows rs ev ev_idx) (\<lambda>ps. Inr (p # ps))))"

definition project_on_pc :: "array2 \<Rightarrow> nat \<Rightarrow> pca \<Rightarrow> real list result" where
  "project_on_pc data ev_idx p = project_rows (rows data) (eigenvectors p) ev_idx"


text \<open>Running a loop body over a list of indices, stopping at the first exception.\<close>

fun map_result :: "('a \<Rightarrow> 'b result) \<Rightarrow> 'a list \<Rightarrow> 'b list result" where
  "map_result f [] = Inr []"
| "map_result f (x # xs) =
     bind_result (f x) (\<lambda>y. bind_result (map_result f xs) (\<lambda>ys. Inr (y # ys)))"

text \<open>
  One pass of the loop over \<open>evi\<close> in \<open>sort_traj_along_pc\<close>:
  \<^verbatim>\<open>
  proj = project_on_pc(data,evi,pca=pca)
  sort_idx  = np.argsort(proj)
  proj_sort = proj[sort_idx]
  oidx_sort = oidx[sort_idx]
  for i in range(data.shape[0]):
      ts = u.trajectory[oidx_sort[i]]
      W.write(a)
  \<close>
  The value kept for the pass is \<open>(proj_sort, oidx_sort)\<close>; the frames requested from
  the trajectory reader are \<open>oidx_sort\<close> in order.  The reader and the writer belong to
  MDAnalysis and are not modelled.
\<close>

definition sort_traj_axis ::
  "array2 \<Rightarrow> pca \<Rightarrow> int list \<Rightarrow> nat \<Rightarrow> (real list \<times> int list) result" where
  "sort_traj_axis data p oidx evi =
     bind_result (project_on_pc data evi p) (\<lambda>proj.
       let sort_idx = np_argsort proj;
           proj_sort = take_idx proj sort_idx;
           oidx_sort = take_idx oidx sort_idx
       in Inr (proj_sort, oidx_sort))"

definition sort_traj_along_pc ::
  "array2 \<Rightarrow> pca \<Rightarrow> int \<Rightarrow> nat \<Rightarrow> (real list \<times> int list) list result" where
  "sort_traj_along_pc data p start_frame num_pc =
     bind_result (arange_plus (length (rows data)) start_frame) (\<lambda>oidx.
       map_result (sort_traj_axis data p oidx) [0..<num_pc])"

text \<open>
  One pass of the loop over \<open>evi\<close> in \<open>sort_trajs_along_common_pc\<close>, which also carries
  the source tag \<open>cond\<close> (1.0 for the first ensemble, 0.0 for the second); the value
  kept is \<open>(proj_sort, cond_sort, oidx_sort)\<close>.
\<close>

definition sort_trajs_axis ::
  "array2 \<Rightarrow> pca \<Rightarrow> real list \<Rightarrow> int list \<Rightarrow> nat
     \<Rightarrow> (real list \<times> real list \<times> int list) result" where
  "sort_trajs_axis data p cond oidx evi =
     bind_result (project_on_pc data evi p) (\<lambda>proj.
       let sort_idx = np_argsort proj;
           proj_sort = take_idx proj sort_idx;
           cond_sort = take_idx cond sort_idx;
           oidx_sort = take_idx oidx sort_idx
       in Inr (proj_sort, cond_sort, oidx_sort))"

text \<open>
  \<^verbatim>\<open>
  data = np.concatenate([data_g,data_a],0)
  cond = np.concatenate([np.ones(len(data_g)), np.zeros(len(data_a))])
  oidx = np.concatenate([np.arange(len(data_g))+start_frame,
                         np.arange(len(data_a))+start_frame])
  pca = pyemma.coordinates.pca(data,dim=3)
  for evi in range(12): ...
  \<close>
  The PCA is PyEMMA's; it is the parameter \<open>pca_fit\<close>.
\<close>

definition sort_trajs_along_common_pc ::
  "(array2 \<Rightarrow> pca) \<Rightarrow> array2 \<Rightarrow> array2 \<Rightarrow> int
     \<Rightarrow> (real list \<times> real list \<times> int list) list result" where
  "sort_trajs_along_common_pc pca_fit data_g data_a start_frame =
     bind_result (concatenate0 data_g data_a) (\<lambda>data.
       let cond = replicate (length (rows data_g)) 1 @ replicate (length (rows data_a)) 0
       in bind_result
            (arange_plus2 (length (rows data_g)) (length (rows data_a)) start_frame)
            (\<lambda>oidx.
               let p = pca_fit data
               in map_result (sort_trajs_axis data p cond oidx) [0..<12]))"



section \<open>Combined clustering: \<open>obtain_combined_clusters\<close> (analysis.py)\<close>

text \<open>
  The clustering itself is PyEMMA's.  A request to it is a value of \<open>cluster_call\<close>,
  carrying exactly the arguments the source passes, and the library is the parameter
  \<open>pyemma\<close> that maps a request to the array of cluster indices
  \<open>clusters.get_output()[0][:,0]\<close>.
\<close>

datatype cluster_call =
    Cluster_kmeans array2 int int
  | Cluster_regspace array2 real

text \<open>
  \<^verbatim>\<open>
  if algorithm == 'kmeans':
      clusters = pyemma.coordinates.cluster_kmeans(data,k=num_clusters,max_iter=100)
  elif algorithm == 'rspace':
      clusters = pyemma.coordinates.cluster_regspace(data,min_dist)
  \<close>
  The parameter \<open>max_iter\<close> of the enclosing function is in scope here and is not read.
  The assertion before this statement admits only the two names.
\<close>

definition clustering_request ::
  "string \<Rightarrow> array2 \<Rightarrow> int \<Rightarrow> real \<Rightarrow> int \<Rightarrow> cluster_call" where
  "clustering_request algorithm data num_clusters min_dist max_iter =
     (if algorithm = ''kmeans'' then Cluster_kmeans data num_clusters 100
      else Cluster_regspace data min_dist)"

text \<open>\<open>np.unique(xs)\<close>: the distinct values in ascending order.\<close>

definition np_unique :: "int list \<Rightarrow> int list" where
  "np_unique xs = sort (remdups xs)"

text \<open>\<open>np.where(cidx==i)\<close>: the positions that hold \<open>i\<close>.\<close>

definition np_where_eq :: "int list \<Rightarrow> int \<Rightarrow> nat list" where
  "np_where_eq cidx i = filter (\<lambda>j. cidx ! j = i) [0..<length cidx]"

text \<open>\<open>data[idx]\<close> for an index array: an index past the last row raises.\<close>

definition select_rows :: "array2 \<Rightarrow> nat list \<Rightarrow> real list list result" where
  "select_rows data idx =
     (if list_all (\<lambda>j. j < length (rows data)) idx
      then Inr (map (\<lambda>j. rows data ! j) idx) else Inl IndexError)"

text \<open>The member rows of cluster \<open>i\<close>, that is \<open>data[np.where(cidx==i)]\<close> when it does not raise.\<close>

definition cluster_members :: "array2 \<Rightarrow> int list \<Rightarrow> int \<Rightarrow> real list list" where
  "cluster_members data cidx i = map (\<lambda>j. rows data ! j) (np_where_eq cidx i)"

text \<open>\<open>np.mean(cluster_data, 0)\<close>: the mean of every column.\<close>

definition np_mean_axis0 :: "nat \<Rightarrow> real list list \<Rightarrow> real list" where
  "np_mean_axis0 d rs =
     map (\<lambda>c. sum_list (map (\<lambda>r. r ! c) rs) / real (length rs)) [0..<d]"

text \<open>\<open>np.sum((cluster_data - cluster_centroid)**2)\<close>.\<close>

definition sum_sq_dev :: "real list list \<Rightarrow> real list \<Rightarrow> real" where
  "sum_sq_dev rs centroid =
     sum_list (map (\<lambda>r. sum_list (map2 (\<lambda>x m. (x - m)\<^sup>2) r centroid)) rs)"

text \<open>
  \<^verbatim>\<open>
  centroids = []
  total_wss = 0
  for i in np.unique(cidx):
      cluster_data = data[np.where(cidx==i)]
      cluster_centroid = np.mean(cluster_data,0)
      centroids.append(cluster_centroid)
      cluster_wss = np.sum( (cluster_data - cluster_centroid)**2 )
      total_wss += cluster_wss
  \<close>
\<close>

fun wss_loop ::
  "array2 \<Rightarrow> int list \<Rightarrow> int list \<Rightarrow> real list list \<times> real
     \<Rightarrow> (real list list \<times> real) result" where
  "wss_loop data cidx [] st = Inr st"
| "wss_loop data cidx (i # ids) (centroids, total_wss) =
     bind_result (select_rows data (np_where_eq cidx i)) (\<lambda>cluster_data.
       let cluster_centroid = np_mean_axis0 (ncols data) cluster_data;
           cluster_wss = sum_sq_dev cluster_data cluster_centroid
       in wss_loop data cidx ids
            (centroids @ [cluster_centroid], total_wss + cluster_wss))"

text \<open>
  The whole function.  The labels and \<open>saveas\<close> only reach matplotlib and are left
  out.  With \<open>plot\<close> set, the boolean masks \<open>cidx[cond==1]\<close> and \<open>cidx[cond==0]\<close> raise
  when \<open>cidx\<close> and \<open>cond\<close> differ in length; nothing else of the plotting is modelled.
  The result is \<open>(cidx, cond, oidx, total_wss, centroids)\<close>.
\<close>

definition obtain_combined_clusters ::
  "(cluster_call \<Rightarrow> int list) \<Rightarrow> array2 \<Rightarrow> array2 \<Rightarrow> int \<Rightarrow> string \<Rightarrow> int \<Rightarrow> real
     \<Rightarrow> int \<Rightarrow> bool
     \<Rightarrow> (int list \<times> real list \<times> int list \<times> real \<times> real list list) result" where
  "obtain_combined_clusters pyemma data_g data_a start_frame algorithm num_clusters
       min_dist max_iter plot =
     bind_result (concatenate0 data_g data_a) (\<lambda>data.
       let cond = replicate (length (rows data_g)) 1 @ replicate (length (rows data_a)) 0
       in bind_result
            (arange_plus2 (length (rows data_g)) (length (rows data_a)) start_frame)
            (\<lambda>oidx.
               if algorithm \<notin> set [''kmeans'', ''rspace''] then Inl AssertionError
               else
                 let cidx = pyemma (clustering_request algorithm data num_clusters min_dist
                                      max_iter)
                 in bind_result (wss_loop data cidx (np_unique cidx) ([], 0))
                      (\<lambda>(centroids, total_wss).
                         if plot \<and> length cidx \<noteq> length cond then Inl IndexError
                         else Inr (cidx, cond, oidx, total_wss, centroids))))"

section \<open>Writing cluster trajectories (analysis.py) and the driver script\<close>

text \<open>
  \<^verbatim>\<open>
  for ts in u.trajectory:
      if ts.frame >= start_frame and cluster_idx[ts.frame-start_frame] == nr:
          W.write(protein)
  \<close>
  The trajectory is MDAnalysis's; of it the model keeps the frame numbers
  \<open>0, 1, ...\<close> it iterates over.  The value is the list of frames written to the file
  of cluster \<open>nr\<close>.
\<close>

fun write_frames :: "int list \<Rightarrow> int \<Rightarrow> int \<Rightarrow> nat list \<Rightarrow> nat list result" where
  "write_frames cluster_idx start_frame nr [] = Inr []"
| "write_frames cluster_idx start_frame nr (frame # frames) =
     (if int frame \<ge> start_frame
      then (let k = nat (int frame - start_frame)
            in if k < length cluster_idx
               then bind_result (write_frames cluster_idx start_frame nr frames)
                      (\<lambda>w. Inr (if cluster_idx ! k = nr then frame # w else w))
               else Inl IndexError)
      else write_frames cluster_idx start_frame nr frames)"

text \<open>
  \<^verbatim>\<open>
  u = mda.Universe(top_file, trj_file)
  num_clusters = np.max(cluster_idx)+1
  for nr in range(num_clusters):
      with mda.Writer(out_name+"_c"+str(nr)+".xtc", protein.n_atoms) as W: ...
  \<close>
  \<open>universe top_file trj_file\<close> is the number of frames of the trajectory read from
  the two files.  An output file is named by \<open>(out_name, nr)\<close>.
\<close>

definition write_cluster_traj ::
  "(string \<Rightarrow> string \<Rightarrow> nat) \<Rightarrow> int list \<Rightarrow> string \<Rightarrow> string \<Rightarrow> string \<Rightarrow> int
     \<Rightarrow> ((string \<times> int) \<times> nat list) list result" where
  "write_cluster_traj universe cluster_idx top_file trj_file out_name start_frame =
     (if cluster_idx = [] then Inl ValueError
      else
        let num_clusters = Max (set cluster_idx) + 1
        in map_result
             (\<lambda>nr. bind_result
                      (write_frames cluster_idx start_frame (int nr)
                         [0..<universe top_file trj_file])
                      (\<lambda>w. Inr ((out_name, int nr), w)))
             [0..<nat num_clusters])"

text \<open>\<open>xs[cond==v]\<close>: a boolean mask has to be as long as the array it selects from.\<close>

definition boolean_mask :: "'a list \<Rightarrow> real list \<Rightarrow> real \<Rightarrow> 'a list result" where
  "boolean_mask xs cond v =
     (if length xs \<noteq> length cond then Inl IndexError
      else Inr (map fst (filter (\<lambda>(x, t). t = v) (zip xs cond))))"

text \<open>
  The command-line arguments the clustering part of the script reads; a field \<open>arg_x\<close> is
  \<open>args.x\<close>, and \<open>arg_do_write\<close> is \<open>args.write\<close>.
\<close>

record args =
  arg_ref_file_a :: string
  arg_trj_file_a :: string
  arg_ref_file_b :: string
  arg_trj_file_b :: string
  arg_out_frames_a :: string
  arg_out_frames_b :: string
  arg_start_frame :: int
  arg_algorithm :: string
  arg_write_num_clusters :: int
  arg_do_write :: bool

text \<open>
  \<^verbatim>\<open>
  cidx, cond, oidx, wss, centroids = cc
  if args.write:
      write_cluster_traj(cidx[cond==0], args.ref_file_a, args.trj_file_a,
                         args.out_frames_a, args.start_frame )
      write_cluster_traj(cidx[cond==0], args.ref_file_b, args.trj_file_b,
                         args.out_frames_b, args.start_frame )
  \<close>
  The value is the list of files written by the two calls, in order.
\<close>

definition main_write ::
  "(string \<Rightarrow> string \<Rightarrow> nat) \<Rightarrow> args
     \<Rightarrow> int list \<times> real list \<times> int list \<times> real \<times> real list list
     \<Rightarrow> ((string \<times> int) \<times> nat list) list list result" where
  "main_write universe a cc =
     (case cc of (cidx, cond, oidx, wss, centroids) \<Rightarrow>
        if arg_do_write a
        then bind_result (boolean_mask cidx cond 0) (\<lambda>idx_a.
             bind_result (write_cluster_traj universe idx_a (arg_ref_file_a a) (arg_trj_file_a a)
                            (arg_out_frames_a a) (arg_start_frame a)) (\<lambda>wa.
             bind_result (boolean_mask cidx cond 0) (\<lambda>idx_b.
             bind_result (write_cluster_traj universe idx_b (arg_ref_file_b a) (arg_trj_file_b a)
                            (arg_out_frames_b a) (arg_start_frame a)) (\<lambda>wb.
             Inr [wa, wb]))))
        else Inr [])"

text \<open>
  The script from the clustering call on; the two feature arrays \<open>data_a[ftype]\<close> and
  \<open>data_b[ftype]\<close> come from \<open>get_features\<close>, which is not part of these sources.
  \<^verbatim>\<open>
  cc = obtain_combined_clusters(data_a[ftype], data_b[ftype], args.start_frame,
           args.label_a, args.label_b, args.algorithm, max_iter=100,
           num_clusters=args.write_num_clusters, min_dist=12, saveas=...)
  \<close>
\<close>

definition main ::
  "(cluster_call \<Rightarrow> int list) \<Rightarrow> (string \<Rightarrow> string \<Rightarrow> nat) \<Rightarrow> args \<Rightarrow> array2 \<Rightarrow> array2
     \<Rightarrow> ((string \<times> int) \<times> nat list) list list result" where
  "main pyemma universe a data_a data_b =
     bind_result
       (obtain_combined_clusters pyemma data_a data_b (arg_start_frame a) (arg_algorithm a)
          (arg_write_num_clusters a) 12 100 True)
       (main_write universe a)"

text \<open>
  Example inputs of the script used in worked examples: two trajectories of 2 and 3
  frames, and the default switches.
\<close>

definition example_universe :: "string \<Rightarrow> string \<Rightarrow> nat" where
  "example_universe top_file trj_file = (if trj_file = ''traj/a.xtc'' then 2 else 3)"

definition example_args :: args where
  "example_args =
     \<lparr>arg_ref_file_a = ''traj/a.gro'', arg_trj_file_a = ''traj/a.xtc'',
      arg_ref_file_b = ''traj/b.gro'', arg_trj_file_b = ''traj/b.xtc'',
      arg_out_frames_a = ''clusters/a'', arg_out_frames_b = ''clusters/b'',
      arg_start_frame = 0, arg_algorithm = ''kmeans'', arg_write_num_clusters = 2,
      arg_do_write = True\<rparr>"

text \<open>A feature object with two named features, used in worked examples.\<close>

definition example_features :: featurizer where
  "example_features =
     \<lparr>describe = [''feature 0'', ''feature 1''],
      active_features = [[''feature 0'', ''feature 1'']]\<rparr>"

text \<open>A feature object whose names differ from those of \<open>example_features\<close>.\<close>

definition other_features :: featurizer where
  "other_features =
     \<lparr>describe = [''feature 0'', ''feature 2''],
      active_features = [[''feature 0'', ''feature 2'']]\<rparr>"

text \<open>
  Two stand-ins for the clustering library used in worked examples: one answers the
  same for every request, the other answers differently when the iteration cap of a
  k-means request is not 100.
\<close>

definition fixed_library :: "cluster_call \<Rightarrow> int list" where
  "fixed_library call = [0, 0, 1, 1, 1]"

definition iteration_sensitive_library :: "cluster_call \<Rightarrow> int list" where
  "iteration_sensitive_library call =
     (case call of
        Cluster_kmeans data k max_iter \<Rightarrow> if max_iter = 100 then [0, 0, 1, 1, 1] else [1, 1, 0, 0, 0]
      | Cluster_regspace data min_dist \<Rightarrow> [0, 0, 0, 0, 0])"

text \<open>
  A stand-in for the clustering library that looks at the data it is given: a row goes
  to cluster 0 when its first coordinate is below 5 and to cluster 1 otherwise.
\<close>

definition threshold_rows :: "array2 \<Rightarrow> int list" where
  "threshold_rows data = map (\<lambda>r. if r ! 0 < 5 then 0 else 1) (rows data)"

definition threshold_library :: "cluster_call \<Rightarrow> int list" where
  "threshold_library call =
     (case call of
        Cluster_kmeans data k max_iter \<Rightarrow> threshold_rows data
      | Cluster_regspace data min_dist \<Rightarrow> threshold_rows data)"

text \<open>
  A stand-in for the SciPy routines in worked examples whose outcome does not depend
  on them.
\<close>

definition constant_statistic :: "real list \<Rightarrow> real list \<Rightarrow> real" where
  "constant_statistic p q = 0"

text \<open>
  Eigenvector matrices for worked examples that are not symmetric, so that a column
  differs from the row of the same index: a 2 by 2 matrix, and a 12 by 12 matrix with
  ones on the diagonal and twos right above it.
\<close>

definition ev2 :: array2 where
  "ev2 = \<lparr>ncols = 2, rows = [[1, 2], [3, 4]]\<rparr>"

definition ev12 :: array2 where
  "ev12 = \<lparr>ncols = 12,
           rows = map (\<lambda>i. map (\<lambda>j. if j = i then 1 else if j = i + 1 then 2 else 0) [0..<12])
                    [0..<12]\<rparr>"

text \<open>A PCA that yields \<open>ev12\<close> whatever the data, for worked examples.\<close>

definition pca_ev12 :: "array2 \<Rightarrow> pca" where
  "pca_ev12 data = \<lparr>eigenvectors = ev12\<rparr>"

section \<open>Shared facts about the result type and the NumPy primitives\<close>

lemma bind_result_Inr:
  "bind_result r f = Inr y \<longleftrightarrow> (\<exists>v. r = Inr v \<and> f v = Inr y)"
  by (cases r) (simp_all add: bind_result_def)

lemma map_result_Inr:
  "map_result f xs = Inr ys \<Longrightarrow>
     length ys = length xs \<and> (\<forall>i<length xs. f (xs ! i) = Inr (ys ! i))"
proof (induction xs arbitrary: ys)
  case Nil
  then show ?case by simp
next
  case (Cons x xs)
  from Cons.prems obtain y ys' where y: "f x = Inr y"
    and ys': "map_result f xs = Inr ys'" and ys: "ys = y # ys'"
    by (auto simp: bind_result_Inr)
  from Cons.IH[OF ys'] y ys show ?case
    by (auto simp: nth_Cons split: nat.splits)
qed

lemma mset_np_argsort: "mset (np_argsort xs) = mset [0..<length xs]"
  by (simp add: np_argsort_def)

lemma sorted_np_argsort: "sorted (map (\<lambda>i. xs ! i) (np_argsort xs))"
  by (simp add: np_argsort_def)

lemma sorted_take_argsort: "sorted (take_idx xs (np_argsort xs))"
  by (simp add: take_idx_def np_argsort_def)

lemma zip_as_map:
  "length ns = length vs \<Longrightarrow> zip ns vs = map (\<lambda>i. (ns ! i, vs ! i)) [0..<length vs]"
  by (rule nth_equalityI) simp_all


lemma fold_result_preserves:
  assumes "fold_result f xs st = Inr st'"
    and "\<And>x s s'. x \<in> set xs \<Longrightarrow> f x s = Inr s' \<Longrightarrow> P s \<Longrightarrow> P s'"
    and "P st"
  shows "P st'"
  using assms
proof (induction xs arbitrary: st)
  case Nil
  then show ?case by simp
next
  case (Cons x xs)
  from Cons.prems(1) obtain s1 where s1: "f x st = Inr s1" "fold_result f xs s1 = Inr st'"
    by (auto simp: bind_result_Inr)
  have p1: "P s1" using Cons.prems(2)[OF _ s1(1) Cons.prems(3)] by simp
  show ?case
  proof (rule Cons.IH[OF s1(2)])
    fix y s s' assume "y \<in> set xs" "f y s = Inr s'" "P s"
    then show "P s'" using Cons.prems(2)[of y s s'] by simp
  qed (rule p1)
qed

lemma fold_result_establishes:
  assumes "fold_result f xs st = Inr st'" and "distinct xs"
    and "\<And>x s s'. x \<in> set xs \<Longrightarrow> f x s = Inr s' \<Longrightarrow> Q x s'"
    and "\<And>x y s s'. x \<in> set xs \<Longrightarrow> y \<noteq> x \<Longrightarrow> f x s = Inr s' \<Longrightarrow> Q y s \<Longrightarrow> Q y s'"
  shows "\<forall>x\<in>set xs. Q x st'"
  using assms
proof (induction xs arbitrary: st)
  case Nil
  then show ?case by simp
next
  case (Cons x xs)
  from Cons.prems(1) obtain s1 where s1: "f x st = Inr s1" "fold_result f xs s1 = Inr st'"
    by (auto simp: bind_result_Inr)
  have q1: "Q x s1" using Cons.prems(3)[OF _ s1(1)] by simp
  have "Q x st'"
  proof (rule fold_result_preserves[OF s1(2), where P = "Q x"])
    fix y s s' assume "y \<in> set xs" "f y s = Inr s'" "Q x s"
    moreover from this Cons.prems(2) have "x \<noteq> y" by auto
    ultimately show "Q x s'" using Cons.prems(4)[of y x s s'] by simp
  qed (rule q1)
  moreover have "\<forall>y\<in>set xs. Q y st'"
  proof (rule Cons.IH[OF s1(2)])
    show "distinct xs" using Cons.prems(2) by simp
  next
    fix y s s' assume "y \<in> set xs" "f y s = Inr s'"
    then show "Q y s'" using Cons.prems(3)[of y s s'] by simp
  next
    fix y z s s' assume "y \<in> set xs" "z \<noteq> y" "f y s = Inr s'" "Q z s"
    then show "Q z s'" using Cons.prems(4)[of y z s s'] by simp
  qed
  ultimately show ?case by simp
qed

lemma fold_result_total:
  assumes "I st"
    and "\<And>x s. x \<in> set xs \<Longrightarrow> I s \<Longrightarrow> \<exists>s'. f x s = Inr s' \<and> I s'"
  shows "\<exists>st'. fold_result f xs st = Inr st' \<and> I st'"
  using assms
proof (induction xs arbitrary: st)
  case Nil
  then show ?case by simp
next
  case (Cons x xs)
  from Cons.prems(2)[of x st] Cons.prems(1) obtain s1 where s1: "f x st = Inr s1" "I s1"
    by auto
  from Cons.IH[OF s1(2)] Cons.prems(2) obtain st' where "fold_result f xs s1 = Inr st'" "I st'"
    by auto
  with s1 show ?case by (simp add: bind_result_def)
qed


lemma set_item_Inr:
  "set_item arr i v = Inr arr' \<longleftrightarrow> i < length arr \<and> arr' = arr[i := v]"
  by (auto simp: set_item_def)

section \<open>\<open>relative_entropy_analysis\<close> with the diagnostic print\<close>





text \<open>
  The claim as first worded, for every pair of data sets with at least one feature,
  fails for two features without frames: the pooled sample is empty, \<open>np.min\<close> raises
  ValueError and the print is not reached.  The same happens for a range of values so
  wide that \<open>np.arange\<close> refuses the number of bins.
\<close>

theorem verbose_relative_entropy_raises_counterexample:
  "[[], [] :: real list] \<noteq> []
   \<and> relative_entropy_analysis 1000000 constant_statistic constant_statistic example_features
         example_features [[], []] [[], []] (1 / 1000) True = Inl ValueError
   \<and> relative_entropy_analysis 1000000 constant_statistic constant_statistic example_features
         example_features [[], []] [[], []] (1 / 1000) True \<noteq> Inl NameError
   \<and> relative_entropy_analysis 1000000 constant_statistic constant_statistic example_features
         example_features [[0, 0], [0, 0]] [[10000000000000000, 10000000000000000], [1, 1]]
         (1 / 1000) True = Inl ValueError"
  by (simp add: relative_entropy_analysis_def relative_entropy_step_def example_features_def
        bind_result_def set_item_def np_arange_def np_mean_def Let_def)

section \<open>Histograms on shared edges\<close>













section \<open>Combined clustering: provenance, centroids and within-cluster sum of squares\<close>

lemma set_np_unique: "set (np_unique xs) = set xs"
  by (simp add: np_unique_def)

lemma distinct_np_unique: "distinct (np_unique xs)"
  by (simp add: np_unique_def)

lemma sorted_np_unique: "sorted (np_unique xs)"
  by (simp add: np_unique_def)

lemma length_np_unique: "length (np_unique xs) = card (set xs)"
  using distinct_card[OF distinct_np_unique[of xs]] by (simp add: set_np_unique)

lemma np_where_eq_nonempty: "i \<in> set cidx \<Longrightarrow> np_where_eq cidx i \<noteq> []"
proof -
  assume "i \<in> set cidx"
  then obtain j where "j < length cidx" "cidx ! j = i" by (auto simp: in_set_conv_nth)
  then have "j \<in> set (np_where_eq cidx i)" by (simp add: np_where_eq_def)
  then show ?thesis by auto
qed

lemma select_rows_Inr:
  "select_rows data idx = Inr rs \<longleftrightarrow>
     (\<forall>j\<in>set idx. j < length (rows data)) \<and> rs = map (\<lambda>j. rows data ! j) idx"
  by (auto simp: select_rows_def list_all_iff)

lemma sum_sq_dev_nonneg: "0 \<le> sum_sq_dev rs centroid"
  unfolding sum_sq_dev_def
  by (intro sum_list_nonneg) (auto intro!: sum_list_nonneg simp: in_set_zip)

lemma wss_loop_Inr:
  "wss_loop data cidx ids (cs, w) = Inr (cs', w') \<Longrightarrow>
     (\<forall>i\<in>set ids. \<forall>j\<in>set (np_where_eq cidx i). j < length (rows data)) \<and>
     cs' = cs @ map (\<lambda>i. np_mean_axis0 (ncols data)
                          (map (\<lambda>j. rows data ! j) (np_where_eq cidx i))) ids \<and>
     w' = w + sum_list (map (\<lambda>i. sum_sq_dev (map (\<lambda>j. rows data ! j) (np_where_eq cidx i))
                 (np_mean_axis0 (ncols data)
                    (map (\<lambda>j. rows data ! j) (np_where_eq cidx i)))) ids)"
proof (induction ids arbitrary: cs w)
  case Nil
  then show ?case by simp
next
  case (Cons i ids)
  let ?m = "map (\<lambda>j. rows data ! j) (np_where_eq cidx i)"
  from Cons.prems have sel: "select_rows data (np_where_eq cidx i) = Inr ?m"
    and rest: "wss_loop data cidx ids
          (cs @ [np_mean_axis0 (ncols data) ?m],
           w + sum_sq_dev ?m (np_mean_axis0 (ncols data) ?m)) = Inr (cs', w')"
    by (auto simp: bind_result_Inr select_rows_Inr Let_def)
  from Cons.IH[OF rest] sel show ?case
    by (auto simp: select_rows_Inr)
qed

lemma wss_loop_total:
  "\<forall>i\<in>set ids. \<forall>j\<in>set (np_where_eq cidx i). j < length (rows data) \<Longrightarrow>
     \<exists>st'. wss_loop data cidx ids st = Inr st'"
proof (induction ids arbitrary: st)
  case Nil
  then show ?case by simp
next
  case (Cons i ids)
  obtain cs w where st: "st = (cs, w)" by (cases st)
  from Cons.prems have "select_rows data (np_where_eq cidx i)
      = Inr (map (\<lambda>j. rows data ! j) (np_where_eq cidx i))"
    by (simp add: select_rows_Inr)
  with Cons.IH Cons.prems st show ?case
    by (simp add: bind_result_def Let_def)
qed


lemma arange_plus_Inr:
  "arange_plus n sf = Inr oidx \<longleftrightarrow>
     - (2 ^ 63) \<le> sf \<and> sf < 2 ^ 63 \<and> oidx = map (\<lambda>j. wrap_int64 (int j + sf)) [0..<n]"
  by (auto simp: arange_plus_def)

lemma arange_plus2_Inr:
  "arange_plus2 n_g n_a sf = Inr oidx \<longleftrightarrow>
     - (2 ^ 63) \<le> sf \<and> sf < 2 ^ 63
     \<and> oidx = map (\<lambda>j. wrap_int64 (int j + sf)) [0..<n_g]
              @ map (\<lambda>j. wrap_int64 (int j + sf)) [0..<n_a]"
  by (auto simp: arange_plus2_def bind_result_Inr arange_plus_Inr)

lemma obtain_combined_clusters_Inr:
  assumes "obtain_combined_clusters pyemma data_g data_a sf alg k md mi plot
             = Inr (cidx, cond, oidx, total_wss, centroids)"
  shows "ncols data_g = ncols data_a"
    and "alg = ''kmeans'' \<or> alg = ''rspace''"
    and "cidx = pyemma (clustering_request alg
                  \<lparr>ncols = ncols data_g, rows = rows data_g @ rows data_a\<rparr> k md mi)"
    and "cond = replicate (length (rows data_g)) 1 @ replicate (length (rows data_a)) 0"
    and "arange_plus2 (length (rows data_g)) (length (rows data_a)) sf = Inr oidx"
    and "wss_loop \<lparr>ncols = ncols data_g, rows = rows data_g @ rows data_a\<rparr> cidx
           (np_unique cidx) ([], 0) = Inr (centroids, total_wss)"
  using assms
  by (auto simp: obtain_combined_clusters_def concatenate0_def bind_result_Inr Let_def
           split: if_splits)

lemma obtain_combined_clusters_returns:
  assumes "ncols data_g = ncols data_a" and "alg = ''kmeans'' \<or> alg = ''rspace''"
    and "- (2 ^ 63) \<le> sf" and "sf < 2 ^ 63"
    and "length (pyemma (clustering_request alg
            \<lparr>ncols = ncols data_g, rows = rows data_g @ rows data_a\<rparr> k md mi))
         = length (rows data_g) + length (rows data_a)"
  shows "\<exists>res. obtain_combined_clusters pyemma data_g data_a sf alg k md mi plot = Inr res"
proof -
  let ?data = "\<lparr>ncols = ncols data_g, rows = rows data_g @ rows data_a\<rparr>"
  let ?cidx = "pyemma (clustering_request alg ?data k md mi)"
  have "\<forall>i\<in>set (np_unique ?cidx). \<forall>j\<in>set (np_where_eq ?cidx i). j < length (rows ?data)"
    using assms(5) by (auto simp: np_where_eq_def)
  from wss_loop_total[OF this, of "([], 0)"]
  obtain st' where "wss_loop ?data ?cidx (np_unique ?cidx) ([], 0) = Inr st'" by blast
  moreover obtain oidx where
    "arange_plus2 (length (rows data_g)) (length (rows data_a)) sf = Inr oidx"
    using assms(3,4) by (simp add: arange_plus2_Inr)
  ultimately show ?thesis
    using assms
    by (cases st') (auto simp: obtain_combined_clusters_def concatenate0_def bind_result_def Let_def)
qed



text \<open>
  The claim as first worded, for every \<open>start_frame\<close>, fails close to the upper end of the
  64-bit range: with three frames in the first ensemble and \<open>start_frame = 2^63 - 2\<close>
  the index recorded for the third frame is \<open>-2^63\<close>, not \<open>2 + start_frame\<close>.
\<close>

theorem combined_clusters_provenance_counterexample:
  "obtain_combined_clusters threshold_library
       \<lparr>ncols = 1, rows = [[0], [1], [2]]\<rparr> \<lparr>ncols = 1, rows = [[9]]\<rparr>
       9223372036854775806 ''kmeans'' 2 12 100 True
     = Inr ([0, 0, 0, 1], [1, 1, 1, 0],
            [9223372036854775806, 9223372036854775807, - 9223372036854775808,
             9223372036854775806],
            2, [[1], [9]])
   \<and> [9223372036854775806, 9223372036854775807, - 9223372036854775808,
       9223372036854775806 :: int] ! 2 \<noteq> 2 + 9223372036854775806"
proof -
  have "obtain_combined_clusters threshold_library
       \<lparr>ncols = 1, rows = [[0], [1], [2]]\<rparr> \<lparr>ncols = 1, rows = [[9]]\<rparr>
       9223372036854775806 ''kmeans'' 2 12 100 True
     = Inr ([0, 0, 0, 1], [1, 1, 1, 0],
            [9223372036854775806, 9223372036854775807, - 9223372036854775808,
             9223372036854775806],
            2, [[1], [9]])"
    by code_simp
  then show ?thesis by simp
qed

text \<open>
  Claim C10.  With \<open>algorithm = 'kmeans'\<close> the request sent to the library is k-means
  on the combined data with the constant 100 as iteration cap, whatever \<open>max_iter\<close> is.
  Two calls that differ only in \<open>max_iter\<close> are therefore the same computation; more
  generally the outcome depends on the library only through its answer to that one
  request, so even a library whose answers vary with the iteration cap cannot make
  the two calls differ.
\<close>

theorem kmeans_ignores_max_iter:
  "obtain_combined_clusters pyemma data_g data_a sf ''kmeans'' k md max_iter plot
     = obtain_combined_clusters pyemma data_g data_a sf ''kmeans'' k md max_iter' plot
   \<and> clustering_request ''kmeans'' data k md max_iter = Cluster_kmeans data k 100
   \<and> (pyemma (Cluster_kmeans \<lparr>ncols = ncols data_g, rows = rows data_g @ rows data_a\<rparr> k 100)
        = pyemma' (Cluster_kmeans \<lparr>ncols = ncols data_g, rows = rows data_g @ rows data_a\<rparr> k 100)
      \<longrightarrow> obtain_combined_clusters pyemma data_g data_a sf ''kmeans'' k md max_iter plot
          = obtain_combined_clusters pyemma' data_g data_a sf ''kmeans'' k md max_iter' plot)"
proof (intro conjI impI)
  show "obtain_combined_clusters pyemma data_g data_a sf ''kmeans'' k md max_iter plot
     = obtain_combined_clusters pyemma data_g data_a sf ''kmeans'' k md max_iter' plot"
    by (simp add: obtain_combined_clusters_def clustering_request_def)
  show "clustering_request ''kmeans'' data k md max_iter = Cluster_kmeans data k 100"
    by (simp add: clustering_request_def)
next
  let ?data = "\<lparr>ncols = ncols data_g, rows = rows data_g @ rows data_a\<rparr>"
  assume same: "pyemma (Cluster_kmeans ?data k 100) = pyemma' (Cluster_kmeans ?data k 100)"
  show "obtain_combined_clusters pyemma data_g data_a sf ''kmeans'' k md max_iter plot
          = obtain_combined_clusters pyemma' data_g data_a sf ''kmeans'' k md max_iter' plot"
  proof (cases "ncols data_g = ncols data_a")
    case True
    then have c: "concatenate0 data_g data_a = Inr ?data" by (simp add: concatenate0_def)
    define after where "after = (\<lambda>(cidx :: int list) (oidx :: int list).
        bind_result (wss_loop ?data cidx (np_unique cidx) ([], 0))
          (\<lambda>(centroids, total_wss).
             if plot \<and> length cidx \<noteq> length (replicate (length (rows data_g)) (1::real)
                                                  @ replicate (length (rows data_a)) 0)
             then Inl IndexError
             else Inr (cidx,
                       replicate (length (rows data_g)) (1::real)
                         @ replicate (length (rows data_a)) 0,
                       oidx, total_wss, centroids)))"
    have run: "obtain_combined_clusters lib data_g data_a sf ''kmeans'' k md cap plot
                 = bind_result
                     (arange_plus2 (length (rows data_g)) (length (rows data_a)) sf)
                     (after (lib (Cluster_kmeans ?data k 100)))" for lib cap
      using c
      by (simp add: obtain_combined_clusters_def clustering_request_def bind_result_def
            Let_def after_def split: sum.splits)
    show ?thesis by (simp only: run same)
  next
    case False
    then show ?thesis
      by (simp add: obtain_combined_clusters_def concatenate0_def bind_result_def)
  qed
qed

theorem kmeans_ignores_max_iter_witness:
  "iteration_sensitive_library
       (Cluster_kmeans \<lparr>ncols = 2, rows = [[0, 0], [0, 2]] @ [[10, 10], [10, 12], [11, 11]]\<rparr> 2 100)
     = fixed_library
         (Cluster_kmeans \<lparr>ncols = 2, rows = [[0, 0], [0, 2]] @ [[10, 10], [10, 12], [11, 11]]\<rparr> 2 100)
   \<and> obtain_combined_clusters iteration_sensitive_library
         \<lparr>ncols = 2, rows = [[0, 0], [0, 2]]\<rparr>
         \<lparr>ncols = 2, rows = [[10, 10], [10, 12], [11, 11]]\<rparr> 0 ''kmeans'' 2 12 5 True
       = obtain_combined_clusters fixed_library
           \<lparr>ncols = 2, rows = [[0, 0], [0, 2]]\<rparr>
           \<lparr>ncols = 2, rows = [[10, 10], [10, 12], [11, 11]]\<rparr> 0 ''kmeans'' 2 12 500 True
   \<and> obtain_combined_clusters iteration_sensitive_library
         \<lparr>ncols = 2, rows = [[0, 0], [0, 2]]\<rparr>
         \<lparr>ncols = 2, rows = [[10, 10], [10, 12], [11, 11]]\<rparr> 0 ''kmeans'' 2 12 5 True
       = Inr ([0, 0, 1, 1, 1], [1, 1, 0, 0, 0], [0, 1, 0, 1, 2], 14 / 3, [[0, 1], [31 / 3, 11]])"
proof -
  let ?G = "\<lparr>ncols = 2, rows = [[0, 0], [0, 2]]\<rparr>"
  let ?A = "\<lparr>ncols = 2, rows = [[10, 10], [10, 12], [11, 11]]\<rparr>"
  have same: "iteration_sensitive_library
                (Cluster_kmeans \<lparr>ncols = ncols ?G, rows = rows ?G @ rows ?A\<rparr> 2 100)
              = fixed_library
                (Cluster_kmeans \<lparr>ncols = ncols ?G, rows = rows ?G @ rows ?A\<rparr> 2 100)"
    by (simp add: iteration_sensitive_library_def fixed_library_def)
  from kmeans_ignores_max_iter[of iteration_sensitive_library ?G ?A 0 2 12 5 True 500
         _ fixed_library] same
  have eq: "obtain_combined_clusters iteration_sensitive_library ?G ?A 0 ''kmeans'' 2 12 5 True
       = obtain_combined_clusters fixed_library ?G ?A 0 ''kmeans'' 2 12 500 True"
    by blast
  have v: "obtain_combined_clusters iteration_sensitive_library ?G ?A 0 ''kmeans'' 2 12 5 True
       = Inr ([0, 0, 1, 1, 1], [1, 1, 0, 0, 0], [0, 1, 0, 1, 2], 14 / 3, [[0, 1], [31 / 3, 11]])"
    by code_simp
  from same eq v show ?thesis by simp
qed

text \<open>
  Claim C4.  Whenever \<open>obtain_combined_clusters\<close> returns, there is exactly one centroid
  per cluster index that occurs in \<open>cidx\<close>; the member list of each such cluster is
  non-empty, and its centroid is the column-wise arithmetic mean of the member rows (so
  no mean of an empty cluster is ever taken); the returned total is the sum over these
  clusters of the squared deviations of the members from their centroid, and it is
  non-negative.
\<close>

theorem centroids_and_total_wss:
  assumes "obtain_combined_clusters pyemma data_g data_a sf alg k md mi plot
             = Inr (cidx, cond, oidx, total_wss, centroids)"
  shows "\<exists>data. concatenate0 data_g data_a = Inr data
           \<and> distinct (np_unique cidx) \<and> set (np_unique cidx) = set cidx
           \<and> length centroids = card (set cidx)
           \<and> (\<forall>n<length centroids.
                  cluster_members data cidx (np_unique cidx ! n) \<noteq> []
                  \<and> centroids ! n
                      = map (\<lambda>c. sum_list (map (\<lambda>r. r ! c)
                                     (cluster_members data cidx (np_unique cidx ! n)))
                                  / real (length (cluster_members data cidx (np_unique cidx ! n))))
                          [0..<ncols data])
           \<and> total_wss
               = (\<Sum>n<length centroids.
                    sum_sq_dev (cluster_members data cidx (np_unique cidx ! n)) (centroids ! n))
           \<and> 0 \<le> total_wss"
proof -
  note f = obtain_combined_clusters_Inr[OF assms]
  let ?data = "\<lparr>ncols = ncols data_g, rows = rows data_g @ rows data_a\<rparr>"
  let ?u = "np_unique cidx"
  let ?cent = "\<lambda>i. np_mean_axis0 (ncols ?data) (cluster_members ?data cidx i)"
  have c: "concatenate0 data_g data_a = Inr ?data"
    using f(1) by (simp add: concatenate0_def)
  from wss_loop_Inr[OF f(6)]
  have cs: "centroids = map ?cent ?u"
    and w: "total_wss = sum_list (map (\<lambda>i. sum_sq_dev (cluster_members ?data cidx i) (?cent i)) ?u)"
    by (simp_all add: cluster_members_def)
  have len: "length centroids = card (set cidx)"
    using cs by (simp add: length_np_unique)
  have mem: "\<forall>n<length centroids. cluster_members ?data cidx (?u ! n) \<noteq> []
       \<and> centroids ! n = map (\<lambda>c. sum_list (map (\<lambda>r. r ! c) (cluster_members ?data cidx (?u ! n)))
                                  / real (length (cluster_members ?data cidx (?u ! n))))
                          [0..<ncols ?data]"
  proof (intro allI impI)
    fix n assume n: "n < length centroids"
    then have "?u ! n \<in> set cidx"
      using cs set_np_unique[of cidx] nth_mem[of n ?u] by simp
    then have "cluster_members ?data cidx (?u ! n) \<noteq> []"
      using np_where_eq_nonempty by (simp add: cluster_members_def)
    moreover have "centroids ! n = ?cent (?u ! n)"
      using cs n by simp
    ultimately show "cluster_members ?data cidx (?u ! n) \<noteq> []
       \<and> centroids ! n = map (\<lambda>c. sum_list (map (\<lambda>r. r ! c) (cluster_members ?data cidx (?u ! n)))
                                  / real (length (cluster_members ?data cidx (?u ! n))))
                          [0..<ncols ?data]"
      by (simp add: np_mean_axis0_def)
  qed
  have "total_wss = (\<Sum>n<length ?u. sum_sq_dev (cluster_members ?data cidx (?u ! n)) (?cent (?u ! n)))"
    unfolding w by (simp add: sum_list_sum_nth atLeast0LessThan)
  also have "\<dots> = (\<Sum>n<length centroids.
        sum_sq_dev (cluster_members ?data cidx (?u ! n)) (centroids ! n))"
    using cs by simp
  finally have tw: "total_wss = (\<Sum>n<length centroids.
        sum_sq_dev (cluster_members ?data cidx (?u ! n)) (centroids ! n))" .
  have nn: "0 \<le> total_wss"
    unfolding w by (intro sum_list_nonneg) (auto simp: sum_sq_dev_nonneg)
  show ?thesis
    using c distinct_np_unique[of cidx] set_np_unique[of cidx] len mem tw nn
    by (intro exI[of _ ?data]) simp
qed

theorem centroids_and_total_wss_witness:
  "obtain_combined_clusters (\<lambda>c. [0, 0, 1, 1, 1])
       \<lparr>ncols = 2, rows = [[0, 0], [0, 2]]\<rparr>
       \<lparr>ncols = 2, rows = [[10, 10], [10, 12], [11, 11]]\<rparr> 0 ''rspace'' 2 12 100 False
     = Inr ([0, 0, 1, 1, 1], [1, 1, 0, 0, 0], [0, 1, 0, 1, 2], 14 / 3, [[0, 1], [31 / 3, 11]])
   \<and> length [[0, 1], [31 / 3, 11 :: real]] = card (set [0, 0, 1, 1, 1 :: int])
   \<and> (0 :: real) \<le> 14 / 3"
proof -
  let ?G = "\<lparr>ncols = 2, rows = [[0, 0], [0, 2]]\<rparr>"
  let ?A = "\<lparr>ncols = 2, rows = [[10, 10], [10, 12], [11, 11]]\<rparr>"
  have h: "obtain_combined_clusters (\<lambda>c. [0, 0, 1, 1, 1]) ?G ?A 0 ''rspace'' 2 12 100 False
     = Inr ([0, 0, 1, 1, 1], [1, 1, 0, 0, 0], [0, 1, 0, 1, 2], 14 / 3, [[0, 1], [31 / 3, 11]])"
    by code_simp
  from centroids_and_total_wss[OF h]
  have "length [[0, 1], [31 / 3, 11 :: real]] = card (set [0, 0, 1, 1, 1 :: int])"
    and "(0 :: real) \<le> 14 / 3"
    by blast+
  with h show ?thesis by blast
qed

section \<open>Precondition failures of the analysis functions\<close>

text \<open>
  Claim C5.  When the feature name lists of the two ensembles differ, or the two data
  arrays differ in their number of feature rows, each of the three analysis functions
  raises AssertionError.  The outcome does not depend on the data, on the remaining
  arguments or on the SciPy routines, so no per-feature statistic has been computed and
  nothing is aligned by position.  (Python drops \<open>assert\<close> statements under \<open>-O\<close>; the
  model is the code as written.)
\<close>

theorem mismatch_fails_first:
  assumes "describe features_a \<noteq> describe features_g \<or> length all_data_a \<noteq> length all_data_g"
  shows "relative_entropy_analysis max_elems kl_div_sum jensenshannon features_a features_g
             all_data_a all_data_g bin_width verbose = Inl AssertionError
         \<and> kolmogorov_smirnov_analysis ks_2samp features_a features_g
             all_data_a all_data_g bin_width verbose = Inl AssertionError
         \<and> mean_difference_analysis features_a features_g all_data_a all_data_g verbose
             = Inl AssertionError"
  using assms
  by (auto simp: relative_entropy_analysis_def kolmogorov_smirnov_analysis_def
                 mean_difference_analysis_def)


theorem mismatch_fails_first_witness:
  "\<forall>kl_div_sum jensenshannon ks_2samp.
     (describe example_features \<noteq> describe other_features
        \<or> length [[0, 0 :: real]] \<noteq> length [[1, 1 :: real]])
     \<and> relative_entropy_analysis 1000000 kl_div_sum jensenshannon example_features other_features
           [[0, 0]] [[1, 1]] (1 / 1000) False = Inl AssertionError
     \<and> kolmogorov_smirnov_analysis ks_2samp example_features other_features
           [[0, 0]] [[1, 1]] (1 / 1000) False = Inl AssertionError
     \<and> mean_difference_analysis example_features other_features [[0, 0]] [[1, 1]] False
           = Inl AssertionError"
proof (intro allI)
  fix kl_div_sum jensenshannon :: "real list \<Rightarrow> real list \<Rightarrow> real"
  fix ks_2samp :: "real list \<Rightarrow> real list \<Rightarrow> (real \<times> real) result"
  have d: "describe example_features \<noteq> describe other_features
        \<or> length [[0, 0 :: real]] \<noteq> length [[1, 1 :: real]]"
    by (simp add: example_features_def other_features_def)
  from mismatch_fails_first[OF d, of 1000000 kl_div_sum jensenshannon "1 / 1000" False ks_2samp] d
  show "(describe example_features \<noteq> describe other_features
        \<or> length [[0, 0 :: real]] \<noteq> length [[1, 1 :: real]])
     \<and> relative_entropy_analysis 1000000 kl_div_sum jensenshannon example_features other_features
           [[0, 0]] [[1, 1]] (1 / 1000) False = Inl AssertionError
     \<and> kolmogorov_smirnov_analysis ks_2samp example_features other_features
           [[0, 0]] [[1, 1]] (1 / 1000) False = Inl AssertionError
     \<and> mean_difference_analysis example_features other_features [[0, 0]] [[1, 1]] False
           = Inl AssertionError"
    by blast
qed

section \<open>The driver script's write branch\<close>

lemma filter_mask_cong_aux:
  "length xs = length ys \<Longrightarrow> length ys = length cond \<Longrightarrow>
   \<forall>j<length cond. cond ! j = v \<longrightarrow> xs ! j = ys ! j \<Longrightarrow>
   map fst (filter (\<lambda>(x, t). t = v) (zip xs cond))
     = map fst (filter (\<lambda>(x, t). t = v) (zip ys cond))"
proof (induction xs ys cond rule: list_induct3)
  case Nil
  then show ?case by simp
next
  case (Cons x xs y ys c cond)
  from Cons.prems have hd: "c = v \<longrightarrow> x = y"
    and tl: "\<forall>j<length cond. cond ! j = v \<longrightarrow> xs ! j = ys ! j"
    by force+
  from Cons.IH[OF tl] hd show ?case by simp
qed

lemma mask_all_zero:
  "length xs = m \<Longrightarrow>
   map fst (filter (\<lambda>(x, t). t = 0) (zip xs (replicate m (0::real)))) = xs"
  by (induction xs arbitrary: m) auto

lemma mask_of_tags:
  "length xs = n + m \<Longrightarrow>
   map fst (filter (\<lambda>(x, t). t = 0) (zip xs (replicate n (1::real) @ replicate m 0))) = drop n xs"
proof (induction n arbitrary: xs)
  case 0
  then show ?case by (simp add: mask_all_zero)
next
  case (Suc n)
  then obtain x xs' where "xs = x # xs'" "length xs' = n + m" by (cases xs) auto
  with Suc.IH[of xs'] show ?case by simp
qed

text \<open>
  Claim C6.  In the write branch of the script both calls of \<open>write_cluster_traj\<close>, the
  one for ensemble A's files and the one for ensemble B's files, receive the same
  array \<open>cidx[cond==0]\<close>.  The entries of \<open>cidx\<close> tagged 1 are never read: changing them
  leaves the outcome of the branch unchanged.  With the tags that
  \<open>obtain_combined_clusters\<close> produces (ones for the first ensemble, then zeros) that
  array is the assignment of the second ensemble only.
\<close>

theorem driver_uses_second_ensemble_mask_twice:
  assumes "length cidx = length cond"
  shows "main_write universe a (cidx, cond, oidx, wss, centroids)
           = (if arg_do_write a
              then bind_result
                     (write_cluster_traj universe
                        (map fst (filter (\<lambda>(x, t). t = 0) (zip cidx cond)))
                        (arg_ref_file_a a) (arg_trj_file_a a) (arg_out_frames_a a)
                        (arg_start_frame a)) (\<lambda>wa.
                   bind_result
                     (write_cluster_traj universe
                        (map fst (filter (\<lambda>(x, t). t = 0) (zip cidx cond)))
                        (arg_ref_file_b a) (arg_trj_file_b a) (arg_out_frames_b a)
                        (arg_start_frame a)) (\<lambda>wb.
                   Inr [wa, wb]))
              else Inr [])
         \<and> (\<forall>cidx'. length cidx' = length cond
                \<and> (\<forall>j<length cond. cond ! j = 0 \<longrightarrow> cidx' ! j = cidx ! j)
              \<longrightarrow> main_write universe a (cidx', cond, oidx, wss, centroids)
                    = main_write universe a (cidx, cond, oidx, wss, centroids))
         \<and> (\<forall>n m. cond = replicate n 1 @ replicate m 0
              \<longrightarrow> map fst (filter (\<lambda>(x, t). t = 0) (zip cidx cond)) = drop n cidx)"
proof (intro conjI allI impI)
  show "main_write universe a (cidx, cond, oidx, wss, centroids)
           = (if arg_do_write a
              then bind_result
                     (write_cluster_traj universe
                        (map fst (filter (\<lambda>(x, t). t = 0) (zip cidx cond)))
                        (arg_ref_file_a a) (arg_trj_file_a a) (arg_out_frames_a a)
                        (arg_start_frame a)) (\<lambda>wa.
                   bind_result
                     (write_cluster_traj universe
                        (map fst (filter (\<lambda>(x, t). t = 0) (zip cidx cond)))
                        (arg_ref_file_b a) (arg_trj_file_b a) (arg_out_frames_b a)
                        (arg_start_frame a)) (\<lambda>wb.
                   Inr [wa, wb]))
              else Inr [])"
    using assms by (simp add: main_write_def boolean_mask_def bind_result_def)
next
  fix cidx' :: "int list"
  assume h: "length cidx' = length cond
                \<and> (\<forall>j<length cond. cond ! j = 0 \<longrightarrow> cidx' ! j = cidx ! j)"
  then have "length cidx' = length cidx" "length cidx = length cond"
    "\<forall>j<length cond. cond ! j = 0 \<longrightarrow> cidx' ! j = cidx ! j"
    using assms by simp_all
  from filter_mask_cong_aux[OF this]
  have "boolean_mask cidx' cond 0 = boolean_mask cidx cond 0"
    using h assms by (simp add: boolean_mask_def)
  then show "main_write universe a (cidx', cond, oidx, wss, centroids)
                    = main_write universe a (cidx, cond, oidx, wss, centroids)"
    by (simp add: main_write_def)
next
  fix n m assume c: "cond = replicate n 1 @ replicate m 0"
  with assms have "length cidx = n + m" by simp
  from mask_of_tags[OF this] c
  show "map fst (filter (\<lambda>(x, t). t = 0) (zip cidx cond)) = drop n cidx" by simp
qed

theorem driver_uses_second_ensemble_mask_twice_witness:
  "length [0, 1, 1, 0, 1 :: int] = length [1, 1, 0, 0, 0 :: real]
   \<and> main_write example_universe example_args
         ([0, 1, 1, 0, 1], [1, 1, 0, 0, 0], [0, 1, 0, 1, 2], 0, [])
       = Inr [[((''clusters/a'', 0), [1]), ((''clusters/a'', 1), [0])],
              [((''clusters/b'', 0), [1]), ((''clusters/b'', 1), [0, 2])]]
   \<and> main_write example_universe example_args
         ([1, 0, 1, 0, 1], [1, 1, 0, 0, 0], [0, 1, 0, 1, 2], 0, [])
       = main_write example_universe example_args
           ([0, 1, 1, 0, 1], [1, 1, 0, 0, 0], [0, 1, 0, 1, 2], 0, [])
   \<and> map fst (filter (\<lambda>(x, t). t = 0) (zip [0, 1, 1, 0, 1 :: int] [1, 1, 0, 0, 0 :: real]))
       = drop 2 [0, 1, 1, 0, 1]"
proof -
  let ?cidx = "[0, 1, 1, 0, 1 :: int]"
  let ?cond = "[1, 1, 0, 0, 0 :: real]"
  have len: "length ?cidx = length ?cond" by simp
  note t = driver_uses_second_ensemble_mask_twice
             [OF len, of example_universe example_args "[0, 1, 0, 1, 2]" 0 "[]"]
  have v: "main_write example_universe example_args (?cidx, ?cond, [0, 1, 0, 1, 2], 0, [])
       = Inr [[((''clusters/a'', 0), [1]), ((''clusters/a'', 1), [0])],
              [((''clusters/b'', 0), [1]), ((''clusters/b'', 1), [0, 2])]]"
    by code_simp
  have p: "length [1, 0, 1, 0, 1 :: int] = length ?cond
            \<and> (\<forall>j<length ?cond. ?cond ! j = 0 \<longrightarrow> [1, 0, 1, 0, 1 :: int] ! j = ?cidx ! j)"
    by (simp add: nth_Cons split: nat.splits)
  from t p have e: "main_write example_universe example_args
         ([1, 0, 1, 0, 1], ?cond, [0, 1, 0, 1, 2], 0, [])
       = main_write example_universe example_args (?cidx, ?cond, [0, 1, 0, 1, 2], 0, [])"
    by blast
  have c: "?cond = replicate 2 1 @ replicate 3 0"
    by (simp add: numeral_2_eq_2 numeral_3_eq_3)
  from t c have d: "map fst (filter (\<lambda>(x, t). t = 0) (zip ?cidx ?cond)) = drop 2 ?cidx"
    by blast
  show ?thesis using len v e d by blast
qed

section \<open>\<open>mean_difference_analysis\<close>\<close>

lemma mean_difference_step_Inr:
  assumes "mean_difference_step A G i s = Inr s'"
  shows "i < length (fst s) \<and> i < length (snd s)
         \<and> fst s' = (fst s)[i := float_scale 0.5 (float_add (np_mean (A ! i)) (np_mean (G ! i)))]
         \<and> snd s' = (snd s)[i := float_sub (np_mean (A ! i)) (np_mean (G ! i))]"
  using assms
  by (cases s; cases s')
     (auto simp: mean_difference_step_def Let_def bind_result_Inr set_item_Inr)

lemma mean_difference_step_total:
  assumes "i < length avg" "i < length diff"
  shows "mean_difference_step A G i (avg, diff)
           = Inr (avg[i := float_scale 0.5 (float_add (np_mean (A ! i)) (np_mean (G ! i)))],
                  diff[i := float_sub (np_mean (A ! i)) (np_mean (G ! i))])"
  using assms
  by (simp add: mean_difference_step_def Let_def bind_result_def set_item_def)

lemma sum_list_const:
  fixes xs :: "real list"
  assumes "set xs \<subseteq> {c}"
  shows "sum_list xs = real (length xs) * c"
  using assms by (induction xs) (simp_all add: algebra_simps)

text \<open>
  Claim C7.  When the two assertions pass and there is a name for every feature row,
  \<open>mean_difference_analysis\<close> returns, and for every feature index \<open>i\<close> the reported
  difference is the mean of ensemble A's sample (its sum divided by its number of
  frames) minus the mean of ensemble B's sample, and the reported average is one half
  of the sum of the two means.  For an ensemble without frames the mean is NaN and so
  are both reported values.  In particular a feature whose A sample consists of zeros
  and whose B sample consists of ones has difference \<open>-1\<close>.
\<close>

theorem mean_difference_values:
  assumes "describe features_a = describe features_g"
    and "length all_data_a = length all_data_g"
    and "active_features features_a = data_names # others"
    and "length all_data_a \<le> length data_names"
  shows "\<exists>data_avg data_diff.
           mean_difference_analysis features_a features_g all_data_a all_data_g verbose
             = Inr (data_names, data_avg, data_diff)
           \<and> length data_avg = length data_names \<and> length data_diff = length data_names
           \<and> (\<forall>i<length all_data_a.
                  (all_data_a ! i \<noteq> [] \<and> all_data_g ! i \<noteq> []
                     \<longrightarrow> data_diff ! i
                           = Finite (sum_list (all_data_a ! i) / real (length (all_data_a ! i))
                                     - sum_list (all_data_g ! i) / real (length (all_data_g ! i)))
                         \<and> data_avg ! i
                           = Finite (0.5 * (sum_list (all_data_a ! i) / real (length (all_data_a ! i))
                                     + sum_list (all_data_g ! i) / real (length (all_data_g ! i)))))
                  \<and> (all_data_a ! i = [] \<or> all_data_g ! i = []
                       \<longrightarrow> data_diff ! i = NaN \<and> data_avg ! i = NaN)
                  \<and> (all_data_a ! i \<noteq> [] \<and> set (all_data_a ! i) \<subseteq> {0}
                       \<and> all_data_g ! i \<noteq> [] \<and> set (all_data_g ! i) \<subseteq> {1}
                     \<longrightarrow> data_diff ! i = Finite (- 1)))"
proof -
  let ?n = "length data_names"
  let ?f = "mean_difference_step all_data_a all_data_g"
  let ?st = "(replicate ?n (Finite 0), replicate ?n (Finite 0))"
  let ?I = "\<lambda>s :: float64 list \<times> float64 list. length (fst s) = ?n \<and> length (snd s) = ?n"
  let ?avg = "\<lambda>i. float_scale 0.5 (float_add (np_mean (all_data_a ! i)) (np_mean (all_data_g ! i)))"
  let ?diff = "\<lambda>i. float_sub (np_mean (all_data_a ! i)) (np_mean (all_data_g ! i))"
  have "\<exists>st'. fold_result ?f [0..<length all_data_a] ?st = Inr st' \<and> ?I st'"
  proof (rule fold_result_total)
    show "?I ?st" by simp
  next
    fix x and s :: "float64 list \<times> float64 list"
    assume x: "x \<in> set [0..<length all_data_a]" and s: "?I s"
    obtain avg diff where sd: "s = (avg, diff)" by (cases s)
    with x s assms(4) have "x < length avg" "x < length diff" by simp_all
    from mean_difference_step_total[OF this] sd s
    show "\<exists>s'. ?f x s = Inr s' \<and> ?I s'" by simp
  qed
  then obtain avg' diff' where
    run: "fold_result ?f [0..<length all_data_a] ?st = Inr (avg', diff')"
    and len: "length avg' = ?n" "length diff' = ?n"
    by auto
  let ?Q = "\<lambda>i (s :: float64 list \<times> float64 list). i < length (fst s) \<and> i < length (snd s)
              \<and> fst s ! i = ?avg i \<and> snd s ! i = ?diff i"
  have vals: "\<forall>i\<in>set [0..<length all_data_a]. ?Q i (avg', diff')"
  proof (rule fold_result_establishes[OF run])
    show "distinct [0..<length all_data_a]" by simp
  next
    fix x and s s' :: "float64 list \<times> float64 list"
    assume "?f x s = Inr s'"
    then show "?Q x s'"
      using mean_difference_step_Inr[of all_data_a all_data_g x s s']
      by simp
  next
    fix x y and s s' :: "float64 list \<times> float64 list"
    assume "y \<noteq> x" "?f x s = Inr s'" "?Q y s"
    then show "?Q y s'"
      using mean_difference_step_Inr[of all_data_a all_data_g x s s']
      by simp
  qed
  have res: "mean_difference_analysis features_a features_g all_data_a all_data_g verbose
             = Inr (data_names, avg', diff')"
    using assms(1,2,3) run by (simp add: mean_difference_analysis_def bind_result_def)
  have "(all_data_a ! i \<noteq> [] \<and> all_data_g ! i \<noteq> []
           \<longrightarrow> diff' ! i
                 = Finite (sum_list (all_data_a ! i) / real (length (all_data_a ! i))
                           - sum_list (all_data_g ! i) / real (length (all_data_g ! i)))
               \<and> avg' ! i
                 = Finite (0.5 * (sum_list (all_data_a ! i) / real (length (all_data_a ! i))
                           + sum_list (all_data_g ! i) / real (length (all_data_g ! i)))))
        \<and> (all_data_a ! i = [] \<or> all_data_g ! i = [] \<longrightarrow> diff' ! i = NaN \<and> avg' ! i = NaN)
        \<and> (all_data_a ! i \<noteq> [] \<and> set (all_data_a ! i) \<subseteq> {0}
             \<and> all_data_g ! i \<noteq> [] \<and> set (all_data_g ! i) \<subseteq> {1}
           \<longrightarrow> diff' ! i = Finite (- 1))"
    if i: "i < length all_data_a" for i
  proof -
    from vals i have d: "diff' ! i = ?diff i" and a: "avg' ! i = ?avg i" by simp_all
    have fin: "diff' ! i
                 = Finite (sum_list (all_data_a ! i) / real (length (all_data_a ! i))
                           - sum_list (all_data_g ! i) / real (length (all_data_g ! i)))
               \<and> avg' ! i
                 = Finite (0.5 * (sum_list (all_data_a ! i) / real (length (all_data_a ! i))
                           + sum_list (all_data_g ! i) / real (length (all_data_g ! i))))"
      if "all_data_a ! i \<noteq> [] \<and> all_data_g ! i \<noteq> []"
      using that d a by (simp add: np_mean_def)
    have nan: "diff' ! i = NaN \<and> avg' ! i = NaN"
      if "all_data_a ! i = [] \<or> all_data_g ! i = []"
      using that d a by (auto simp: np_mean_def)
    have one: "diff' ! i = Finite (- 1)"
      if h: "all_data_a ! i \<noteq> [] \<and> set (all_data_a ! i) \<subseteq> {0}
             \<and> all_data_g ! i \<noteq> [] \<and> set (all_data_g ! i) \<subseteq> {1}"
    proof -
      from h have "sum_list (all_data_a ! i) = 0"
        "sum_list (all_data_g ! i) = real (length (all_data_g ! i))"
        using sum_list_const[of "all_data_a ! i" 0] sum_list_const[of "all_data_g ! i" 1]
        by simp_all
      with fin h show ?thesis by simp
    qed
    from fin nan one show ?thesis by blast
  qed
  with res len show ?thesis by blast
qed

theorem mean_difference_values_witness:
  "describe example_features = describe example_features
   \<and> length [[0, 0], [1, 5 :: real]] = length [[1, 1], [2, 8 :: real]]
   \<and> active_features example_features = [''feature 0'', ''feature 1''] # []
   \<and> length [[0, 0], [1, 5 :: real]] \<le> length [''feature 0'', ''feature 1'']
   \<and> mean_difference_analysis example_features example_features
         [[0, 0], [1, 5]] [[1, 1], [2, 8]] True
       = Inr ([''feature 0'', ''feature 1''],
              [Finite (1 / 2), Finite 4], [Finite (- 1), Finite (- 2)])
   \<and> [Finite (- 1), Finite (- 2)] ! 1
       = Finite (sum_list ([[0, 0], [1, 5]] ! 1) / real (length ([[0, 0], [1, 5 :: real]] ! 1))
                 - sum_list ([[1, 1], [2, 8]] ! 1) / real (length ([[1, 1], [2, 8 :: real]] ! 1)))"
proof -
  let ?A = "[[0, 0], [1, 5 :: real]]"
  let ?G = "[[1, 1], [2, 8 :: real]]"
  have h: "active_features example_features = [''feature 0'', ''feature 1''] # []"
    by (simp add: example_features_def)
  have l: "length ?A \<le> length [''feature 0'', ''feature 1'']"
    by simp
  have e: "length ?A = length ?G"
    by simp
  have v: "mean_difference_analysis example_features example_features ?A ?G True
        = Inr ([''feature 0'', ''feature 1''],
               [Finite (1 / 2), Finite 4], [Finite (- 1), Finite (- 2)])"
    by (simp add: mean_difference_analysis_def mean_difference_step_def example_features_def
          bind_result_def set_item_def np_mean_def Let_def)
  from mean_difference_values[OF refl e h l, of True]
  obtain data_avg data_diff where
    r: "mean_difference_analysis example_features example_features ?A ?G True
        = Inr ([''feature 0'', ''feature 1''], data_avg, data_diff)"
    and f: "\<forall>i<length ?A.
                  (?A ! i \<noteq> [] \<and> ?G ! i \<noteq> []
                     \<longrightarrow> data_diff ! i
                           = Finite (sum_list (?A ! i) / real (length (?A ! i))
                                     - sum_list (?G ! i) / real (length (?G ! i)))
                         \<and> data_avg ! i
                           = Finite (0.5 * (sum_list (?A ! i) / real (length (?A ! i))
                                     + sum_list (?G ! i) / real (length (?G ! i)))))
                  \<and> (?A ! i = [] \<or> ?G ! i = []
                       \<longrightarrow> data_diff ! i = NaN \<and> data_avg ! i = NaN)
                  \<and> (?A ! i \<noteq> [] \<and> set (?A ! i) \<subseteq> {0}
                       \<and> ?G ! i \<noteq> [] \<and> set (?G ! i) \<subseteq> {1}
                     \<longrightarrow> data_diff ! i = Finite (- 1))"
    by (elim exE conjE) (rule that)
  have i1: "1 < length ?A" and ne: "?A ! 1 \<noteq> [] \<and> ?G ! 1 \<noteq> []"
    by simp_all
  from f i1 have "(?A ! 1 \<noteq> [] \<and> ?G ! 1 \<noteq> []
                     \<longrightarrow> data_diff ! 1
                           = Finite (sum_list (?A ! 1) / real (length (?A ! 1))
                                     - sum_list (?G ! 1) / real (length (?G ! 1)))
                         \<and> data_avg ! 1
                           = Finite (0.5 * (sum_list (?A ! 1) / real (length (?A ! 1))
                                     + sum_list (?G ! 1) / real (length (?G ! 1)))))"
    by blast
  with ne have d1: "data_diff ! 1
                      = Finite (sum_list (?A ! 1) / real (length (?A ! 1))
                                - sum_list (?G ! 1) / real (length (?G ! 1)))"
    by blast
  from r v have dd: "data_diff = [Finite (- 1), Finite (- 2)]"
    by (simp only: sum.inject prod.inject)
  from d1 have c: "[Finite (- 1), Finite (- 2)] ! 1
       = Finite (sum_list (?A ! 1) / real (length (?A ! 1))
                 - sum_list (?G ! 1) / real (length (?G ! 1)))"
    unfolding dd .
  from h e l v c show ?thesis
    by (intro conjI refl)
qed

section \<open>Projections sorted along a principal component\<close>

lemma np_dot_Inr:
  "np_dot xs ys = Inr q \<longleftrightarrow>
     length xs = length ys \<and> q = (\<Sum>j<length xs. xs ! j * ys ! j)"
proof -
  have "sum_list (map2 (*) xs ys) = (\<Sum>j<length xs. xs ! j * ys ! j)"
    if "length xs = length ys"
    using that by (simp add: sum_list_sum_nth atLeast0LessThan)
  then show ?thesis by (auto simp: np_dot_def)
qed

lemma column_Inr:
  "column m j = Inr c \<longleftrightarrow> j < ncols m \<and> c = map (\<lambda>r. r ! j) (rows m)"
  by (auto simp: column_def)

lemma project_rows_Inr:
  "project_rows rs ev ev_idx = Inr proj \<Longrightarrow>
     length proj = length rs \<and>
     (\<forall>ti<length rs. ev_idx < ncols ev \<and> length (rs ! ti) = length (rows ev)
        \<and> proj ! ti = (\<Sum>j<length (rs ! ti). rs ! ti ! j * rows ev ! j ! ev_idx))"
proof (induction rs arbitrary: proj)
  case Nil
  then show ?case by simp
next
  case (Cons r rs)
  from Cons.prems obtain c q ps where c: "column ev ev_idx = Inr c"
    and q: "np_dot r c = Inr q" and ps: "project_rows rs ev ev_idx = Inr ps"
    and proj: "proj = q # ps"
    by (auto simp: bind_result_Inr)
  from c have idx: "ev_idx < ncols ev" and cdef: "c = map (\<lambda>r. r ! ev_idx) (rows ev)"
    by (simp_all add: column_Inr)
  from q cdef have len: "length r = length (rows ev)"
    and qv: "q = (\<Sum>j<length r. r ! j * rows ev ! j ! ev_idx)"
    by (simp_all add: np_dot_Inr)
  from Cons.IH[OF ps] idx len qv proj show ?case
    by (auto simp: nth_Cons split: nat.splits)
qed

lemma mset_take_argsort: "mset (take_idx xs (np_argsort xs)) = mset xs"
proof -
  have "mset (take_idx xs (np_argsort xs)) = image_mset (\<lambda>i. xs ! i) (mset (np_argsort xs))"
    by (simp add: take_idx_def)
  also have "\<dots> = mset (map (\<lambda>i. xs ! i) [0..<length xs])"
    by (simp add: mset_np_argsort)
  also have "\<dots> = mset xs"
    by (simp add: map_nth)
  finally show ?thesis .
qed

lemma sort_traj_axis_Inr:
  "sort_traj_axis data p oidx evi = Inr ax \<Longrightarrow>
     \<exists>proj. project_on_pc data evi p = Inr proj \<and>
            mset (fst ax) = mset proj \<and> sorted (fst ax)"
  by (auto simp: sort_traj_axis_def bind_result_Inr Let_def sorted_take_argsort
        mset_take_argsort)

lemma sort_trajs_axis_Inr:
  "sort_trajs_axis data p cond oidx evi = Inr ax \<Longrightarrow>
     \<exists>proj. project_on_pc data evi p = Inr proj \<and>
            mset (fst ax) = mset proj \<and> sorted (fst ax)"
  by (auto simp: sort_trajs_axis_def bind_result_Inr Let_def sorted_take_argsort
        mset_take_argsort)

text \<open>
  Claim C8.  \<open>project_on_pc\<close> yields one score per frame, the dot product of the
  frame's feature vector with column \<open>ev_idx\<close> of the eigenvector matrix: the sum over
  the features \<open>j\<close> of the frame's entry \<open>j\<close> times the entry in row \<open>j\<close> and column
  \<open>ev_idx\<close> of the matrix.  Whenever \<open>sort_traj_along_pc\<close> or
  \<open>sort_trajs_along_common_pc\<close> complete, the local \<open>proj_sort = proj[sort_idx]\<close> of every
  pass of their loop is a rearrangement of that projection (of the combined data, for
  the second function) and is monotonically non-decreasing.
\<close>

theorem projection_sorted_along_pc:
  "(project_on_pc data ev_idx p = Inr proj \<longrightarrow>
      length proj = length (rows data) \<and>
      (\<forall>ti<length (rows data).
         ev_idx < ncols (eigenvectors p)
         \<and> length (rows data ! ti) = length (rows (eigenvectors p))
         \<and> proj ! ti = (\<Sum>j<length (rows data ! ti).
                           rows data ! ti ! j * rows (eigenvectors p) ! j ! ev_idx)))
   \<and> (sort_traj_along_pc data p start_frame num_pc = Inr out1 \<longrightarrow>
        length out1 = num_pc \<and>
        (\<forall>evi<num_pc. \<exists>pr. project_on_pc data evi p = Inr pr
           \<and> mset (fst (out1 ! evi)) = mset pr \<and> sorted (fst (out1 ! evi))))
   \<and> (sort_trajs_along_common_pc pca_fit data_g data_a start_frame = Inr out2 \<longrightarrow>
        length out2 = 12 \<and>
        (\<forall>evi<12. \<exists>pr.
           project_on_pc \<lparr>ncols = ncols data_g, rows = rows data_g @ rows data_a\<rparr> evi
               (pca_fit \<lparr>ncols = ncols data_g, rows = rows data_g @ rows data_a\<rparr>) = Inr pr
           \<and> mset (fst (out2 ! evi)) = mset pr \<and> sorted (fst (out2 ! evi))))"
proof (intro conjI impI)
  assume "project_on_pc data ev_idx p = Inr proj"
  then show "length proj = length (rows data)"
    and "\<forall>ti<length (rows data).
         ev_idx < ncols (eigenvectors p)
         \<and> length (rows data ! ti) = length (rows (eigenvectors p))
         \<and> proj ! ti = (\<Sum>j<length (rows data ! ti).
                           rows data ! ti ! j * rows (eigenvectors p) ! j ! ev_idx)"
    using project_rows_Inr[of "rows data" "eigenvectors p" ev_idx proj]
    by (simp_all add: project_on_pc_def)
next
  assume a: "sort_traj_along_pc data p start_frame num_pc = Inr out1"
  then obtain oidx where m: "map_result (sort_traj_axis data p oidx) [0..<num_pc] = Inr out1"
    by (auto simp: sort_traj_along_pc_def bind_result_Inr)
  from map_result_Inr[OF m] show "length out1 = num_pc" by simp
  show "\<forall>evi<num_pc. \<exists>pr. project_on_pc data evi p = Inr pr
           \<and> mset (fst (out1 ! evi)) = mset pr \<and> sorted (fst (out1 ! evi))"
  proof (intro allI impI)
    fix evi assume "evi < num_pc"
    with map_result_Inr[OF m] have "sort_traj_axis data p oidx evi = Inr (out1 ! evi)" by simp
    then show "\<exists>pr. project_on_pc data evi p = Inr pr
           \<and> mset (fst (out1 ! evi)) = mset pr \<and> sorted (fst (out1 ! evi))"
      by (rule sort_traj_axis_Inr)
  qed
next
  let ?both = "\<lparr>ncols = ncols data_g, rows = rows data_g @ rows data_a\<rparr>"
  assume a: "sort_trajs_along_common_pc pca_fit data_g data_a start_frame = Inr out2"
  then obtain cond oidx where
    m: "map_result (sort_trajs_axis ?both (pca_fit ?both) cond oidx) [0..<12] = Inr out2"
    by (auto simp: sort_trajs_along_common_pc_def concatenate0_def bind_result_Inr Let_def
          split: if_splits)
  from map_result_Inr[OF m] show "length out2 = 12" by simp
  show "\<forall>evi<12. \<exists>pr. project_on_pc ?both evi (pca_fit ?both) = Inr pr
           \<and> mset (fst (out2 ! evi)) = mset pr \<and> sorted (fst (out2 ! evi))"
  proof (intro allI impI)
    fix evi :: nat assume "evi < 12"
    with map_result_Inr[OF m]
    have "sort_trajs_axis ?both (pca_fit ?both) cond oidx evi = Inr (out2 ! evi)"
      by simp
    then show "\<exists>pr. project_on_pc ?both evi (pca_fit ?both) = Inr pr
           \<and> mset (fst (out2 ! evi)) = mset pr \<and> sorted (fst (out2 ! evi))"
      by (rule sort_trajs_axis_Inr)
  qed
qed

theorem projection_sorted_along_pc_witness:
  "project_on_pc \<lparr>ncols = 2, rows = [[3, 1], [1, 2], [2, 0]]\<rparr> 1 \<lparr>eigenvectors = ev2\<rparr>
     = Inr [10, 10, 4]
   \<and> [10, 10, 4] ! 0 = (\<Sum>j<length [3, 1 :: real]. [3, 1] ! j * rows ev2 ! j ! 1)
   \<and> sort_traj_along_pc \<lparr>ncols = 2, rows = [[3, 1], [1, 2], [2, 0]]\<rparr>
        \<lparr>eigenvectors = ev2\<rparr> 5 2
      = Inr [([2, 6, 7], [7, 5, 6]), ([4, 10, 10], [7, 5, 6])]
   \<and> sort_trajs_along_common_pc pca_ev12
        \<lparr>ncols = 12, rows = [[3, 0, 1, 0, 0, 0, 0, 0, 0, 0, 0, 0],
                               [1, 2, 0, 0, 0, 0, 0, 0, 0, 0, 0, 1]]\<rparr>
        \<lparr>ncols = 12, rows = [[2, 5, 0, 0, 0, 0, 0, 0, 0, 0, 0, 0]]\<rparr> 5
      = Inr [([1, 2, 3], [1, 0, 1], [6, 5, 5]), ([4, 6, 9], [1, 1, 0], [6, 5, 5]),
             ([1, 4, 10], [1, 1, 0], [5, 6, 5]), ([0, 0, 2], [1, 0, 1], [6, 5, 5]),
             ([0, 0, 0], [1, 1, 0], [5, 6, 5]), ([0, 0, 0], [1, 1, 0], [5, 6, 5]),
             ([0, 0, 0], [1, 1, 0], [5, 6, 5]), ([0, 0, 0], [1, 1, 0], [5, 6, 5]),
             ([0, 0, 0], [1, 1, 0], [5, 6, 5]), ([0, 0, 0], [1, 1, 0], [5, 6, 5]),
             ([0, 0, 0], [1, 1, 0], [5, 6, 5]), ([0, 0, 1], [1, 0, 1], [5, 5, 6])]
   \<and> sorted [4, 10, 10 :: real] \<and> sorted [4, 6, 9 :: real]"
proof -
  let ?D = "\<lparr>ncols = 2, rows = [[3, 1], [1, 2], [2, 0]]\<rparr>"
  let ?P = "\<lparr>eigenvectors = ev2\<rparr>"
  let ?G = "\<lparr>ncols = 12, rows = [[3, 0, 1, 0, 0, 0, 0, 0, 0, 0, 0, 0],
                               [1, 2, 0, 0, 0, 0, 0, 0, 0, 0, 0, 1]]\<rparr>"
  let ?A = "\<lparr>ncols = 12, rows = [[2, 5, 0, 0, 0, 0, 0, 0, 0, 0, 0, 0]]\<rparr>"
  let ?out1 = "[([2, 6, 7], [7, 5, 6]), ([4, 10, 10 :: real], [7, 5, 6 :: int])]"
  let ?out2 = "[([1, 2, 3], [1, 0, 1], [6, 5, 5]), ([4, 6, 9], [1, 1, 0], [6, 5, 5]),
             ([1, 4, 10], [1, 1, 0], [5, 6, 5]), ([0, 0, 2], [1, 0, 1], [6, 5, 5]),
             ([0, 0, 0], [1, 1, 0], [5, 6, 5]), ([0, 0, 0], [1, 1, 0], [5, 6, 5]),
             ([0, 0, 0], [1, 1, 0], [5, 6, 5]), ([0, 0, 0], [1, 1, 0], [5, 6, 5]),
             ([0, 0, 0], [1, 1, 0], [5, 6, 5]), ([0, 0, 0], [1, 1, 0], [5, 6, 5]),
             ([0, 0, 0], [1, 1, 0], [5, 6, 5]),
             ([0, 0, 1 :: real], [1, 0, 1 :: real], [5, 5, 6 :: int])]"
  have h1: "project_on_pc ?D 1 ?P = Inr [10, 10, 4]"
    by code_simp
  have h2: "sort_traj_along_pc ?D ?P 5 2 = Inr ?out1"
    by code_simp
  have h3: "sort_trajs_along_common_pc pca_ev12 ?G ?A 5 = Inr ?out2"
    by code_simp
  note t = projection_sorted_along_pc[of ?D 1 ?P "[10, 10, 4]" 5 2 ?out1 pca_ev12 ?G ?A ?out2]
  from t h1 have "\<forall>ti<length (rows ?D).
         1 < ncols (eigenvectors ?P)
         \<and> length (rows ?D ! ti) = length (rows (eigenvectors ?P))
         \<and> [10, 10, 4] ! ti = (\<Sum>j<length (rows ?D ! ti).
                           rows ?D ! ti ! j * rows (eigenvectors ?P) ! j ! 1)"
    by blast
  then have c1: "[10, 10, 4] ! 0 = (\<Sum>j<length [3, 1 :: real]. [3, 1] ! j * rows ev2 ! j ! 1)"
    by (auto dest!: spec[of _ 0] simp: ev2_def)
  from t h2 have "\<forall>evi<2. \<exists>pr. project_on_pc ?D evi ?P = Inr pr
           \<and> mset (fst (?out1 ! evi)) = mset pr \<and> sorted (fst (?out1 ! evi))"
    by blast
  then have c2: "sorted [4, 10, 10 :: real]"
    by (auto dest!: spec[of _ 1])
  from t h3 have "\<forall>evi<12. \<exists>pr.
           project_on_pc \<lparr>ncols = ncols ?G, rows = rows ?G @ rows ?A\<rparr> evi
               (pca_ev12 \<lparr>ncols = ncols ?G, rows = rows ?G @ rows ?A\<rparr>) = Inr pr
           \<and> mset (fst (?out2 ! evi)) = mset pr \<and> sorted (fst (?out2 ! evi))"
    by blast
  then have c3: "sorted [4, 6, 9 :: real]"
    by (auto dest!: spec[of _ 1])
  from h1 c1 h2 h3 c2 c3 show ?thesis
    by (intro conjI)
qed

section \<open>\<open>sort_features\<close> keeps every entry and orders by descending value\<close>

lemma sort_features_loop_Inr:
  "\<forall>i\<in>set idx. i < length names \<Longrightarrow>
     sort_features_loop names sortby idx = Inr (map (\<lambda>i. (names ! i, sortby ! i)) idx)"
  by (induction idx) (auto simp: bind_result_def)

text \<open>
  Claim C9.  For name and value arrays of equal length, \<open>sort_features\<close> returns, and
  its rows are a permutation of the input \<open>(name, value)\<close> pairs (equal as multisets,
  so no entry is dropped or duplicated), one row per input entry, with the values in
  descending order (the reversed value column is ascending).
\<close>

theorem sort_features_permutation_descending:
  assumes "length names = length sortby"
  shows "\<exists>out. sort_features names sortby = Inr out
           \<and> mset out = mset (zip names sortby)
           \<and> length out = length sortby
           \<and> sorted (rev (map snd out))"
proof -
  let ?idx = "rev (np_argsort sortby)"
  let ?out = "map (\<lambda>i. (names ! i, sortby ! i)) ?idx"
  have set_idx: "set ?idx = {0..<length sortby}"
    using mset_np_argsort[of sortby] by (metis mset_eq_setD set_rev set_upt)
  then have r: "sort_features names sortby = Inr ?out"
    unfolding sort_features_def using assms by (intro sort_features_loop_Inr) auto
  have "mset ?out = image_mset (\<lambda>i. (names ! i, sortby ! i)) (mset (np_argsort sortby))"
    by simp
  also have "\<dots> = mset (map (\<lambda>i. (names ! i, sortby ! i)) [0..<length sortby])"
    by (simp add: mset_np_argsort)
  also have "\<dots> = mset (zip names sortby)"
    using zip_as_map[OF assms] by simp
  finally have m: "mset ?out = mset (zip names sortby)" .
  have s: "sorted (rev (map snd ?out))"
    using sorted_np_argsort[of sortby] by (simp add: rev_map comp_def)
  have l: "length ?out = length sortby"
    by (simp add: np_argsort_def)
  show ?thesis using r m s l by blast
qed

theorem sort_features_permutation_descending_witness:
  "length [''phi 1'', ''psi 1'', ''phi 2''] = length [1 / 2, 2, 1 :: real]
   \<and> (\<exists>out. sort_features [''phi 1'', ''psi 1'', ''phi 2''] [1 / 2, 2, 1] = Inr out
         \<and> mset out = mset (zip [''phi 1'', ''psi 1'', ''phi 2''] [1 / 2, 2, 1])
         \<and> length out = length [1 / 2, 2, 1 :: real]
         \<and> sorted (rev (map snd out)))"
  using sort_features_permutation_descending
          [of "[''phi 1'', ''psi 1'', ''phi 2'']" "[1 / 2, 2, 1]"]
  by simp

end
